theory Spec2Isabelle
  imports Main "HOL-Library.AList"
begin

unbundle bit_operations_syntax

section \<open>Python values and exceptions\<close>

text \<open>
  The exceptions the modelled code raises (or that a collaborator raises into it), carried
  as values.  \<open>HTTPError\<close> stands for any failure of the HTTP collaborator and
  \<open>CancelledError\<close> for a cancellation delivered at an \<^verbatim>\<open>await\<close>.
\<close>

datatype error =
    ValueError string
  | TypeError string
  | KeyError string
  | AttributeError string
  | HTTPError string
  | CancelledError

text \<open>
  JSON-like Python values.  \<open>PNone\<close> is \<^verbatim>\<open>None\<close>; \<open>PMissing\<close> is the sentinel
  \<^verbatim>\<open>dis_snek.const.MISSING\<close>, an object of its own that is not \<^verbatim>\<open>None\<close>.  A dict
  is an association list in insertion order.
\<close>

datatype pyval =
    PNone
  | PMissing
  | PBool bool
  | PInt int
  | PStr string
  | PList "pyval list"
  | PDict "(string \<times> pyval) list"

type_synonym pydict = "(string \<times> pyval) list"

text \<open>
  Python truthiness of the values that the modelled code tests: the values of a decoded
  payload.  The sentinel never occurs there; it is listed as falsy.
\<close>

fun truthy :: "pyval \<Rightarrow> bool" where
  "truthy PNone = False"
| "truthy PMissing = False"
| "truthy (PBool b) = b"
| "truthy (PInt i) = (i \<noteq> 0)"
| "truthy (PStr s) = (s \<noteq> [])"
| "truthy (PList xs) = (xs \<noteq> [])"
| "truthy (PDict d) = (d \<noteq> [])"

text \<open>\<^verbatim>\<open>str(n)\<close> for a Python int: its decimal digits.\<close>

fun str_nat :: "nat \<Rightarrow> string" where
  "str_nat n =
     (if n < 10 then [''0123456789'' ! n]
      else str_nat (n div 10) @ [''0123456789'' ! (n mod 10)])"

definition str_int :: "int \<Rightarrow> string" where
  "str_int i = (if i < 0 then CHR ''-'' # str_nat (nat (- i)) else str_nat (nat i))"

text \<open>\<^verbatim>\<open>s.startswith(p)\<close>.\<close>

definition startswith :: "string \<Rightarrow> string \<Rightarrow> bool" where
  "startswith s p = (take (length p) s = p)"

section \<open>Asset (models/discord\_objects/asset.py)\<close>

text \<open>
  The attrs class \<^verbatim>\<open>Asset\<close>: the owning client (a handle), the URL and the optional
  hash.
\<close>

record asset =
  client :: nat
  url :: string
  hash :: "string option"

definition BASE :: string where
  "BASE = ''https://cdn.discordapp.com''"

text \<open>
  \<^verbatim>\<open>Asset.from_path_hash\<close>: the URL is \<^verbatim>\<open>f"{cls.BASE}/{path.format(asset_hash)}"\<close>.
  \<^verbatim>\<open>path.format\<close> is Python's built-in string formatting: what it answers for a template
  and an argument (the formatted string, or the exception it raises) is the parameter
  \<open>format\<close>.  An exception of the formatting is the exception of \<^verbatim>\<open>from_path_hash\<close>, and
  no asset is built.
\<close>

definition from_path_hash ::
  "(string \<Rightarrow> string \<Rightarrow> error + string) \<Rightarrow> nat \<Rightarrow> string \<Rightarrow> string \<Rightarrow> error + asset" where
  "from_path_hash format cl path asset_hash =
     (case format path asset_hash of
        Inl e \<Rightarrow> Inl e
      | Inr p \<Rightarrow> Inr \<lparr>client = cl, url = BASE @ ''/'' @ p, hash = Some asset_hash\<rparr>)"

text \<open>
  The property \<^verbatim>\<open>Asset.animated\<close>.  The result \<open>None\<close> is Python's \<^verbatim>\<open>None\<close>,
  returned when the hash is \<^verbatim>\<open>None\<close> or empty (\<^verbatim>\<open>not self.hash\<close>).
\<close>

definition Asset_animated :: "asset \<Rightarrow> bool option" where
  "Asset_animated a =
     (case hash a of
        None \<Rightarrow> None
      | Some h \<Rightarrow> if h = [] then None else Some (startswith h ''a_''))"

text \<open>Truthiness of the value of \<open>Asset_animated\<close>: \<^verbatim>\<open>None\<close> and \<^verbatim>\<open>False\<close> are falsy.\<close>

definition truthy_opt_bool :: "bool option \<Rightarrow> bool" where
  "truthy_opt_bool b = (b = Some True)"

text \<open>
  \<^verbatim>\<open>Asset.get\<close> up to the request (lines 41 to 54): the URL that is handed to
  \<^verbatim>\<open>request_cdn\<close>, or the exception raised before any request.  \<^verbatim>\<open>if not extension\<close>
  takes \<^verbatim>\<open>None\<close> and the empty string alike; \<^verbatim>\<open>if size\<close> skips \<^verbatim>\<open>None\<close> and 0.
\<close>

definition Asset_get_url :: "asset \<Rightarrow> string option \<Rightarrow> int option \<Rightarrow> error + string" where
  "Asset_get_url a extension sz =
     (let ext = (if extension = None \<or> extension = Some []
                 then (if truthy_opt_bool (Asset_animated a) then ''.gif'' else ''.png'')
                 else the extension)
      in case sz of
           None \<Rightarrow> Inr (url a @ ext)
         | Some s \<Rightarrow>
             if s = 0 then Inr (url a @ ext)
             else if \<not> (s \<noteq> 0 \<and> s AND (s - 1) = 0)
               then Inl (ValueError ''Size should be a power of 2'')
             else if \<not> (16 \<le> s \<and> s \<le> 4096)
               then Inl (ValueError ''Size should be between 16 and 4096'')
             else Inr ((url a @ ''?size='' @ str_int s) @ ext))"

text \<open>
  \<^verbatim>\<open>Asset.get\<close>: the built URL goes to the HTTP collaborator's \<^verbatim>\<open>request_cdn\<close>, whose
  answer (bytes or an exception) is the parameter \<open>request_cdn\<close>.
\<close>

definition Asset_get ::
  "(string \<Rightarrow> asset \<Rightarrow> error + 'b) \<Rightarrow> asset \<Rightarrow> string option \<Rightarrow> int option \<Rightarrow> error + 'b" where
  "Asset_get request_cdn a extension sz =
     (case Asset_get_url a extension sz of
        Inl e \<Rightarrow> Inl e
      | Inr u \<Rightarrow> request_cdn u a)"

section \<open>The HTTP collaborator\<close>

text \<open>
  The calls that the entities issue on \<^verbatim>\<open>self._client.http\<close>, with their arguments
  in the order of the source.  The collaborator itself is not part of the modelled code:
  its answer to each call (the returned payload, or the exception it raises, a
  cancellation included) is a parameter of type \<open>http\<close>, and the calls issued so far are
  kept in a log.
\<close>

datatype http_call =
    modify_guild_emoji pydict "int option" "int option" pyval
  | delete_guild_emoji "int option" "int option" pyval
  | modify_guild_sticker pydict "int option" int pyval
  | delete_guild_sticker "int option" int pyval

type_synonym http = "http_call \<Rightarrow> error + pyval"

text \<open>
  A keyword argument is \<open>None\<close> when the caller leaves it out, and then takes the default
  of the signature.
\<close>

fun arg_or :: "pyval \<Rightarrow> pyval option \<Rightarrow> pyval" where
  "arg_or d None = d"
| "arg_or d (Some v) = v"

text \<open>
  Truthiness of a stored identifier (\<^verbatim>\<open>Optional[Snowflake_Type]\<close>, an int after
  conversion): \<^verbatim>\<open>None\<close> and 0 are falsy.
\<close>

fun id_truthy :: "int option \<Rightarrow> bool" where
  "id_truthy None = False"
| "id_truthy (Some i) = (i \<noteq> 0)"

text \<open>
  Modelled from the spec: \<^verbatim>\<open>dict_filter_none\<close> of \<^verbatim>\<open>dis_snek.utils.serializer\<close> is not
  among the sources.  By its name and by the spec's example for the custom emoji (a
  parameter left at its default \<^verbatim>\<open>None\<close> is excluded from the payload) it keeps the
  entries whose value is not \<^verbatim>\<open>None\<close>.
\<close>

definition dict_filter_none :: "pydict \<Rightarrow> pydict" where
  "dict_filter_none d = filter (\<lambda>kv. snd kv \<noteq> PNone) d"

section \<open>Emoji and CustomEmoji (models/discord\_objects/emoji.py)\<close>

record emoji =
  id' :: "int option"
  name :: "string option"
  animated :: bool

record custom_emoji = emoji +
  client :: nat
  require_colons :: bool
  managed :: bool
  available :: bool
  creator_id :: "int option"
  role_ids :: "int list"
  guild_id :: "int option"

text \<open>
  The handles of \<^verbatim>\<open>dis_snek.utils.proxy\<close>, as the data they are built from: the stored
  identifier(s) and the resolution method, a bound method of the cache of a client.
\<close>

datatype resolver = get_user nat | get_role nat | get_guild nat

datatype handle = CacheProxy "int option" resolver | CacheView "int list" resolver

text \<open>
  The reference accessors.  Each returns its value together with the entity as the read
  leaves it.  \<^verbatim>\<open>creator\<close> falls off its end (\<^verbatim>\<open>None\<close>) when the identifier is falsy.
\<close>

definition CustomEmoji_creator :: "custom_emoji \<Rightarrow> handle option \<times> custom_emoji" where
  "CustomEmoji_creator self =
     (if id_truthy (creator_id self)
      then (Some (CacheProxy (creator_id self) (get_user (custom_emoji.client self))), self)
      else (None, self))"

definition CustomEmoji_roles :: "custom_emoji \<Rightarrow> handle option \<times> custom_emoji" where
  "CustomEmoji_roles self =
     (Some (CacheView (role_ids self) (get_role (custom_emoji.client self))), self)"

definition CustomEmoji_guild :: "custom_emoji \<Rightarrow> handle option \<times> custom_emoji" where
  "CustomEmoji_guild self =
     (Some (CacheProxy (custom_emoji.guild_id self) (get_guild (custom_emoji.client self))), self)"

text \<open>
  \<^verbatim>\<open>CustomEmoji.edit\<close>.  \<^verbatim>\<open>update_from_dict\<close> (of the serialization mixin, not among the
  sources) is a parameter: given the entity and the payload it answers with the exception
  it raises, if any, and the entity as it leaves it (updated, or in whatever state it was
  when the exception came).  The result of \<^verbatim>\<open>edit\<close> is the exception raised, if any, the
  entity and the log of HTTP calls (\<open>calls\<close>).
\<close>

definition CustomEmoji_edit ::
  "http \<Rightarrow> (custom_emoji \<Rightarrow> pyval \<Rightarrow> error option \<times> custom_emoji) \<Rightarrow> custom_emoji \<Rightarrow>
   pyval option \<Rightarrow> pyval option \<Rightarrow> pyval option \<Rightarrow> http_call list \<Rightarrow>
   error option \<times> custom_emoji \<times> http_call list" where
  "CustomEmoji_edit http update_from_dict self name_arg roles_arg reason_arg calls =
     (let data_payload =
            dict_filter_none [(''name'', arg_or PNone name_arg), (''roles'', arg_or PNone roles_arg)];
          call = modify_guild_emoji data_payload (custom_emoji.guild_id self) (emoji.id' self)
                   (arg_or PNone reason_arg)
      in case http call of
           Inl e \<Rightarrow> (Some e, self, calls @ [call])
         | Inr updated_data \<Rightarrow>
             (case update_from_dict self updated_data of
                (raised, self') \<Rightarrow> (raised, self', calls @ [call])))"

text \<open>\<^verbatim>\<open>CustomEmoji.delete\<close>: the exception raised, if any, and the log of HTTP calls.\<close>

definition CustomEmoji_delete ::
  "http \<Rightarrow> custom_emoji \<Rightarrow> pyval option \<Rightarrow> http_call list \<Rightarrow> error option \<times> http_call list" where
  "CustomEmoji_delete http self reason_arg calls =
     (if \<not> id_truthy (custom_emoji.guild_id self)
      then (Some (ValueError ''Cannot delete emoji, no guild id set.''), calls)
      else
        (let call = delete_guild_emoji (custom_emoji.guild_id self) (emoji.id' self)
                      (arg_or PNone reason_arg)
         in case http call of
              Inl e \<Rightarrow> (Some e, calls @ [call])
            | Inr _ \<Rightarrow> (None, calls @ [call])))"

text \<open>
  \<^verbatim>\<open>CustomEmoji._process_dict\<close>.  \<open>place_user_data\<close> is the cache collaborator: given the
  sub-payload and the cache it answers with the identifier of the user it stored and the
  new cache, or raises.  \<^verbatim>\<open>data.pop("user", None)\<close> removes the key;
  \<^verbatim>\<open>data["creator_id"] = ...\<close> and \<^verbatim>\<open>data["role_ids"] = ...\<close> update an entry in place or
  append one.
\<close>

definition CustomEmoji_process_dict ::
  "(pyval \<Rightarrow> 'c \<Rightarrow> error + int \<times> 'c) \<Rightarrow> pydict \<Rightarrow> 'c \<Rightarrow> error + pydict \<times> 'c" where
  "CustomEmoji_process_dict place_user_data data cache =
     (let creator_dict = (case map_of data ''user'' of None \<Rightarrow> PNone | Some v \<Rightarrow> v);
          data1 = AList.delete ''user'' data;
          rename = (\<lambda>d. case map_of d ''roles'' of
                           None \<Rightarrow> d
                         | Some r \<Rightarrow> AList.update ''role_ids'' r (AList.delete ''roles'' d))
      in if truthy creator_dict then
           (case place_user_data creator_dict cache of
              Inl e \<Rightarrow> Inl e
            | Inr (uid, cache') \<Rightarrow>
                Inr (rename (AList.update ''creator_id'' (PInt uid) data1), cache'))
         else Inr (rename (AList.update ''creator_id'' PNone data1), cache))"

text \<open>
  Modelled from the spec: \<^verbatim>\<open>_filter_kwargs\<close> and \<^verbatim>\<open>_get_init_keys\<close> of the serialization
  mixin are not among the sources.  The spec's payload-decoding constructor filters out
  the keys that are not in the entity's field set; the field set of \<^verbatim>\<open>CustomEmoji\<close> is
  read off the attrs fields declared in emoji.py, by their constructor names (without the
  leading underscore).
\<close>

definition CustomEmoji_init_keys :: "string list" where
  "CustomEmoji_init_keys =
     [''id'', ''name'', ''animated'', ''client'', ''require_colons'', ''managed'',
      ''available'', ''creator_id'', ''role_ids'', ''guild_id'']"

definition filter_kwargs :: "pydict \<Rightarrow> string list \<Rightarrow> pydict" where
  "filter_kwargs data keys = filter (\<lambda>kv. fst kv \<in> set keys) data"

text \<open>
  \<^verbatim>\<open>CustomEmoji.from_dict\<close>, up to the attrs-generated constructor: the keyword arguments
  that \<^verbatim>\<open>cls(client=client, **...)\<close> receives besides \<^verbatim>\<open>client\<close>, and the cache.  A
  payload key \<^verbatim>\<open>client\<close> that survives the filter is a second value for the same keyword
  (TypeError).
\<close>

definition CustomEmoji_from_dict ::
  "(pyval \<Rightarrow> 'c \<Rightarrow> error + int \<times> 'c) \<Rightarrow> pydict \<Rightarrow> 'c \<Rightarrow> error + pydict \<times> 'c" where
  "CustomEmoji_from_dict place_user_data data cache =
     (case CustomEmoji_process_dict place_user_data data cache of
        Inl e \<Rightarrow> Inl e
      | Inr (data', cache') \<Rightarrow>
          (let kwargs = filter_kwargs data' CustomEmoji_init_keys
           in if ''client'' \<in> fst ` set kwargs
              then Inl (TypeError ''got multiple values for keyword argument 'client' '')
              else Inr (kwargs, cache')))"

section \<open>Sticker (models/discord\_objects/sticker.py)\<close>

datatype StickerTypes = STANDARD | GUILD

datatype StickerFormatTypes = PNG | APNG | LOTTIE

record sticker_item =
  id' :: int
  client :: nat
  name :: string
  format_type :: StickerFormatTypes

record sticker = sticker_item +
  pack_id :: "int option"
  description :: "string option"
  tags :: string
  type' :: StickerTypes
  available :: "bool option"
  sort_value :: "int option"
  user_id :: "int option"
  guild_id :: "int option"

definition Sticker_user :: "sticker \<Rightarrow> handle option \<times> sticker" where
  "Sticker_user self =
     (if id_truthy (user_id self)
      then (Some (CacheProxy (user_id self) (get_user (sticker_item.client self))), self)
      else (None, self))"

definition Sticker_guild :: "sticker \<Rightarrow> handle option \<times> sticker" where
  "Sticker_guild self =
     (if id_truthy (sticker.guild_id self)
      then (Some (CacheProxy (sticker.guild_id self) (get_guild (sticker_item.client self))), self)
      else (None, self))"

text \<open>
  \<^verbatim>\<open>Sticker.edit\<close>: every parameter defaults to \<^verbatim>\<open>MISSING\<close>, and the payload goes
  through \<^verbatim>\<open>dict_filter_none\<close>.  \<^verbatim>\<open>update_from_dict\<close> is the same parameter as for the
  custom emoji.
\<close>

definition Sticker_edit ::
  "http \<Rightarrow> (sticker \<Rightarrow> pyval \<Rightarrow> error option \<times> sticker) \<Rightarrow> sticker \<Rightarrow>
   pyval option \<Rightarrow> pyval option \<Rightarrow> pyval option \<Rightarrow> pyval option \<Rightarrow> http_call list \<Rightarrow>
   error option \<times> sticker \<times> http_call list" where
  "Sticker_edit http update_from_dict self name_arg description_arg tags_arg reason_arg calls =
     (if \<not> id_truthy (sticker.guild_id self)
      then (Some (ValueError ''You can only edit guild stickers.''), self, calls)
      else
        (let payload =
               dict_filter_none
                 [(''name'', arg_or PMissing name_arg),
                  (''description'', arg_or PMissing description_arg),
                  (''tags'', arg_or PMissing tags_arg)];
             call = modify_guild_sticker payload (sticker.guild_id self) (sticker_item.id' self)
                      (arg_or PMissing reason_arg)
         in case http call of
              Inl e \<Rightarrow> (Some e, self, calls @ [call])
            | Inr sticker_data \<Rightarrow>
                (case update_from_dict self sticker_data of
                   (raised, self') \<Rightarrow> (raised, self', calls @ [call]))))"

definition Sticker_delete ::
  "http \<Rightarrow> sticker \<Rightarrow> pyval option \<Rightarrow> http_call list \<Rightarrow> error option \<times> http_call list" where
  "Sticker_delete http self reason_arg calls =
     (if \<not> id_truthy (sticker.guild_id self)
      then (Some (ValueError ''You can only delete guild stickers.''), calls)
      else
        (let call = delete_guild_sticker (sticker.guild_id self) (sticker_item.id' self)
                      (arg_or PMissing reason_arg)
         in case http call of
              Inl e \<Rightarrow> (Some e, calls @ [call])
            | Inr _ \<Rightarrow> (None, calls @ [call])))"

text \<open>
  A caller that reads an accessor \<open>n\<close> times in a row: the values read, in order, and the
  entity after the last read.
\<close>

fun reads :: "('e \<Rightarrow> 'r \<times> 'e) \<Rightarrow> nat \<Rightarrow> 'e \<Rightarrow> 'r list \<times> 'e" where
  "reads acc 0 e = ([], e)"
| "reads acc (Suc n) e =
     (case acc e of (r, e') \<Rightarrow> (case reads acc n e' of (rs, e'') \<Rightarrow> (r # rs, e'')))"

section \<open>Scale (models/scale.py)\<close>

text \<open>
  The commands a scale collects in \<^verbatim>\<open>_commands\<close>: instances of \<^verbatim>\<open>InteractionCommand\<close>
  (with a scope and a name) or of \<^verbatim>\<open>MessageCommand\<close> (with a name).
\<close>

datatype command = InteractionCommand int string | MessageCommand string

text \<open>
  The registries of the client that a scale touches: \<^verbatim>\<open>bot.interactions\<close> (scope to
  name to command), \<^verbatim>\<open>bot.commands\<close> (name to command) and \<^verbatim>\<open>bot.scales\<close> (name to
  scale class, a handle here).  Each is a dict: an association list in insertion
  order.
\<close>

record bot =
  interactions :: "(int \<times> (string \<times> command) list) list"
  commands :: "(string \<times> command) list"
  scales :: "(string \<times> nat) list"

text \<open>
  An object passed as a hook: \<^verbatim>\<open>asyncio.iscoroutinefunction\<close> holds of the functions
  defined with \<^verbatim>\<open>async def\<close> and of nothing else.
\<close>

datatype pyobj = CoroutineFunction nat | OtherObject nat

fun iscoroutinefunction :: "pyobj \<Rightarrow> bool" where
  "iscoroutinefunction (CoroutineFunction f) = True"
| "iscoroutinefunction (OtherObject x) = False"

text \<open>
  The state of a scale.  \<open>scale_name\<close> is the attribute that \<^verbatim>\<open>__new__\<close> stores under
  the mangled name of \<^verbatim>\<open>__name\<close>.  \<open>dunder_name\<close> is what the expression
  \<^verbatim>\<open>self.__name__\<close> finds on the instance: a name ending in two underscores is not mangled,
  and \<^verbatim>\<open>__name__\<close> of a class is not visible on its instances, so the lookup fails
  (\<open>None\<close>, an AttributeError) unless the scale's class body or instance defines such an
  attribute.
\<close>

record scale =
  scale_name :: string
  dunder_name :: "string option"
  scale_commands :: "command list"
  scale_checks :: "pyobj list"
  scale_prerun :: "pyobj list"
  scale_postrun :: "pyobj list"

text \<open>
  One round of the loop of \<^verbatim>\<open>Scale.shed\<close>.  An interaction command is popped when
  \<^verbatim>\<open>interactions.get(scope)\<close> is a non-empty dict that holds the name; a message command
  is looked up with \<^verbatim>\<open>self.bot.commands[cmd.name]\<close>, a KeyError when the name is absent,
  and popped otherwise (a command object is truthy).
\<close>

fun shed_cmd :: "command \<Rightarrow> bot \<Rightarrow> error option \<times> bot" where
  "shed_cmd (InteractionCommand sc nm) b =
     (case map_of (interactions b) sc of
        None \<Rightarrow> (None, b)
      | Some inner \<Rightarrow>
          if inner \<noteq> [] \<and> map_of inner nm \<noteq> None
          then (None, b\<lparr>interactions := AList.update sc (AList.delete nm inner) (interactions b)\<rparr>)
          else (None, b))"
| "shed_cmd (MessageCommand nm) b =
     (case map_of (commands b) nm of
        None \<Rightarrow> (Some (KeyError nm), b)
      | Some c \<Rightarrow> (None, b\<lparr>commands := AList.delete nm (commands b)\<rparr>))"

text \<open>The loop: it stops at the first exception, with the registries as they are then.\<close>

fun shed_cmds :: "command list \<Rightarrow> bot \<Rightarrow> error option \<times> bot" where
  "shed_cmds [] b = (None, b)"
| "shed_cmds (cmd # cmds) b =
     (case shed_cmd cmd b of
        (Some e, b') \<Rightarrow> (Some e, b')
      | (None, b') \<Rightarrow> shed_cmds cmds b')"

text \<open>\<^verbatim>\<open>Scale.shed\<close>: the loop, then \<^verbatim>\<open>self.bot.scales.pop(self.__name__)\<close>.\<close>

definition shed :: "scale \<Rightarrow> bot \<Rightarrow> error option \<times> bot" where
  "shed self b =
     (case shed_cmds (scale_commands self) b of
        (Some e, b') \<Rightarrow> (Some e, b')
      | (None, b') \<Rightarrow>
          (case dunder_name self of
             None \<Rightarrow> (Some (AttributeError ''__name__''), b')
           | Some n \<Rightarrow>
               (case map_of (scales b') n of
                  None \<Rightarrow> (Some (KeyError n), b')
                | Some c \<Rightarrow> (None, b'\<lparr>scales := AList.delete n (scales b')\<rparr>))))"

text \<open>
  \<^verbatim>\<open>Scale.add_scale_check\<close>, \<^verbatim>\<open>add_scale_prerun\<close> and \<^verbatim>\<open>add_scale_postrun\<close>: the
  exception raised, if any, and the scale.  An empty list is replaced by a fresh empty
  list before the append.
\<close>

definition add_scale_check :: "scale \<Rightarrow> pyobj \<Rightarrow> error option \<times> scale" where
  "add_scale_check self coroutine =
     (if \<not> iscoroutinefunction coroutine
      then (Some (TypeError ''Check must be a coroutine''), self)
      else
        (let self1 = (if scale_checks self = [] then self\<lparr>scale_checks := []\<rparr> else self)
         in (None, self1\<lparr>scale_checks := scale_checks self1 @ [coroutine]\<rparr>)))"

definition add_scale_prerun :: "scale \<Rightarrow> pyobj \<Rightarrow> error option \<times> scale" where
  "add_scale_prerun self coroutine =
     (if \<not> iscoroutinefunction coroutine
      then (Some (TypeError ''Callback must be a coroutine''), self)
      else
        (let self1 = (if scale_prerun self = [] then self\<lparr>scale_prerun := []\<rparr> else self)
         in (None, self1\<lparr>scale_prerun := scale_prerun self1 @ [coroutine]\<rparr>)))"

definition add_scale_postrun :: "scale \<Rightarrow> pyobj \<Rightarrow> error option \<times> scale" where
  "add_scale_postrun self coroutine =
     (if \<not> iscoroutinefunction coroutine
      then (Some (TypeError ''Callback must be a coroutine''), self)
      else
        (let self1 = (if scale_postrun self = [] then self\<lparr>scale_postrun := []\<rparr> else self)
         in (None, self1\<lparr>scale_postrun := scale_postrun self1 @ [coroutine]\<rparr>)))"

section \<open>Arithmetic of the power-of-two test\<close>

declare str_nat.simps [simp del]

lemma pow2_check_pos:
  fixes n :: int
  assumes "0 < n"
  shows "(n AND (n - 1) = 0) \<longleftrightarrow> (\<exists>k::nat. n = 2 ^ k)"
  using assms
proof (induction "nat n" arbitrary: n rule: less_induct)
  case less
  show ?case
  proof (cases "even n")
    case True
    then obtain m where m: "n = 2 * m" by (elim evenE)
    with less.prems have mpos: "0 < m" by simp
    have d1: "n div 2 = m" using m by simp
    have d2: "(n - 1) div 2 = m - 1" using m by simp
    have step: "n AND (n - 1) = 2 * (m AND (m - 1))"
      using and_int_rec [of n "n - 1"] True d1 d2 by simp
    have ih: "(m AND (m - 1) = 0) \<longleftrightarrow> (\<exists>k::nat. m = 2 ^ k)"
      using less.hyps [of m] mpos m by simp
    have "(\<exists>k::nat. m = 2 ^ k) \<longleftrightarrow> (\<exists>k::nat. n = 2 ^ k)"
    proof
      assume "\<exists>k::nat. m = 2 ^ k"
      then obtain k :: nat where "m = 2 ^ k" ..
      then have "n = 2 ^ Suc k" using m by simp
      then show "\<exists>k::nat. n = 2 ^ k" ..
    next
      assume "\<exists>k::nat. n = 2 ^ k"
      then obtain k :: nat where k: "n = 2 ^ k" ..
      with True have "k \<noteq> 0" by (cases k) auto
      then obtain j where "k = Suc j" by (cases k) auto
      with k m have "m = 2 ^ j" by simp
      then show "\<exists>k::nat. m = 2 ^ k" ..
    qed
    with step ih show ?thesis by simp
  next
    case False
    then obtain m where m: "n = 2 * m + 1" by (elim oddE)
    have d1: "n div 2 = m" using m by simp
    have d2: "(n - 1) div 2 = m" using m by simp
    have step: "n AND (n - 1) = 2 * m"
      using and_int_rec [of n "n - 1"] False d1 d2 by simp
    have "(\<exists>k::nat. n = 2 ^ k) \<longleftrightarrow> n = 1"
    proof
      assume "\<exists>k::nat. n = 2 ^ k"
      then obtain k :: nat where k: "n = 2 ^ k" ..
      with False have "k = 0" by (cases k) auto
      with k show "n = 1" by simp
    next
      assume "n = 1"
      then have "n = 2 ^ (0::nat)" by simp
      then show "\<exists>k::nat. n = 2 ^ k" ..
    qed
    with step m show ?thesis by auto
  qed
qed

lemma pow2_check_neg:
  fixes n :: int
  assumes "n < 0"
  shows "n AND (n - 1) \<noteq> 0"
proof -
  have "n AND (n - 1) < 0" using assms by (simp add: and_negative_int_iff)
  then show ?thesis by linarith
qed

lemma pow2_check_iff:
  fixes n :: int
  assumes "n \<noteq> 0"
  shows "(n AND (n - 1) = 0) \<longleftrightarrow> (\<exists>k::nat. n = 2 ^ k)"
proof (cases "0 < n")
  case True
  then show ?thesis by (rule pow2_check_pos)
next
  case False
  with assms have neg: "n < 0" by simp
  have "\<not> (\<exists>k::nat. n = 2 ^ k)"
  proof
    assume "\<exists>k::nat. n = 2 ^ k"
    then obtain k :: nat where "n = 2 ^ k" ..
    then have "0 < n" by simp
    with neg show False by simp
  qed
  with pow2_check_neg [OF neg] show ?thesis by simp
qed

section \<open>Asset: animated hashes, default extension and the size parameter\<close>

lemma startswith_a_nonempty: "startswith h ''a_'' \<Longrightarrow> h \<noteq> []"
  by (auto simp: startswith_def)

lemma from_path_hash_built:
  assumes "from_path_hash format cl path h = Inr a"
  shows "\<exists>p. format path h = Inr p
           \<and> a = \<lparr>asset.client = cl, url = BASE @ ''/'' @ p, hash = Some h\<rparr>"
  using assms by (cases "format path h") (auto simp: from_path_hash_def)

lemma str_int_32: "str_int 32 = ''32''"
  by (simp add: str_int_def str_nat.simps)

text \<open>
  The three outcomes of the size test of \<^verbatim>\<open>get\<close> for a size other than 0: not a power
  of two, a power of two outside 16..4096, and a power of two inside.  In the last case
  the URL is the asset's URL, then \<^verbatim>\<open>?size=\<close> and the decimal size, then the extension:
  the one given, or else \<^verbatim>\<open>.gif\<close> for an animated asset and \<^verbatim>\<open>.png\<close> for any other.
\<close>

lemma Asset_get_url_invalid_pow2:
  assumes "s \<noteq> 0" and "\<not> (\<exists>k::nat. s = 2 ^ k)"
  shows "Asset_get_url a ext (Some s) = Inl (ValueError ''Size should be a power of 2'')"
  using assms pow2_check_iff [of s] by (simp add: Asset_get_url_def Let_def)

lemma Asset_get_url_invalid_range:
  assumes "\<exists>k::nat. s = 2 ^ k" and "\<not> (16 \<le> s \<and> s \<le> 4096)"
  shows "Asset_get_url a ext (Some s) = Inl (ValueError ''Size should be between 16 and 4096'')"
proof -
  from assms(1) have nz: "s \<noteq> 0" by auto
  with assms pow2_check_iff [of s] show ?thesis
    by (simp add: Asset_get_url_def Let_def)
qed

lemma Asset_get_url_valid:
  assumes "\<exists>k::nat. s = 2 ^ k" and "16 \<le> s" and "s \<le> 4096"
  shows "Asset_get_url a ext (Some s) =
           Inr (url a @ ''?size='' @ str_int s @
                (if ext = None \<or> ext = Some []
                 then (if Asset_animated a = Some True then ''.gif'' else ''.png'')
                 else the ext))"
proof -
  from assms(2) have nz: "s \<noteq> 0" by auto
  with assms pow2_check_iff [of s] show ?thesis
    by (simp add: Asset_get_url_def Let_def truthy_opt_bool_def)
qed

lemma Asset_get_rejects_non_power_of_two:
  assumes "s \<noteq> 0" and "\<not> (\<exists>k::nat. s = 2 ^ k)"
  shows "Asset_get request_cdn a ext (Some s) = Inl (ValueError ''Size should be a power of 2'')"
  using Asset_get_url_invalid_pow2 [OF assms] by (simp add: Asset_get_def)

lemma Asset_get_rejects_out_of_range:
  assumes "\<exists>k::nat. s = 2 ^ k" and "\<not> (16 \<le> s \<and> s \<le> 4096)"
  shows "Asset_get request_cdn a ext (Some s)
           = Inl (ValueError ''Size should be between 16 and 4096'')"
  using Asset_get_url_invalid_range [OF assms] by (simp add: Asset_get_def)

lemma Asset_get_accepts_valid_size:
  assumes "\<exists>k::nat. s = 2 ^ k" and "16 \<le> s" and "s \<le> 4096"
  shows "Asset_get request_cdn a ext (Some s) =
           request_cdn (url a @ ''?size='' @ str_int s @
                (if ext = None \<or> ext = Some []
                 then (if Asset_animated a = Some True then ''.gif'' else ''.png'')
                 else the ext)) a"
  using Asset_get_url_valid [OF assms] by (simp add: Asset_get_def)

lemma Asset_get_without_size:
  "Asset_get request_cdn a ext None =
     request_cdn (url a @
        (if ext = None \<or> ext = Some []
         then (if Asset_animated a = Some True then ''.gif'' else ''.png'')
         else the ext)) a"
  by (simp add: Asset_get_def Asset_get_url_def Let_def truthy_opt_bool_def)

lemma pow2_32: "\<exists>k::nat. (32::int) = 2 ^ k"
  using pow2_check_iff [of 32] by simp

text \<open>
  Claim C3.  An asset built by \<open>from_path_hash\<close> has the URL made of the base address,
  a slash and the formatted path, and the hash it was given.  When that hash starts with
  \<^verbatim>\<open>a_\<close> the asset is animated, and \<^verbatim>\<open>get\<close> without an extension requests the URL with
  \<^verbatim>\<open>.gif\<close> appended; for any other hash the default is \<^verbatim>\<open>.png\<close>.  With a size that
  passes the size test (any power of two from 16 to 4096, 32 for one) the requested URL is
  the asset's URL, then \<^verbatim>\<open>?size=\<close> and the size, then the extension (the default one or
  the one given).
\<close>

theorem asset_animated_prefix_get:
  assumes "from_path_hash format cl path h = Inr a"
  shows "(\<exists>p. format path h = Inr p \<and> url a = BASE @ ''/'' @ p)
       \<and> hash a = Some h
       \<and> (startswith h ''a_'' \<longrightarrow>
            Asset_animated a = Some True
          \<and> Asset_get request_cdn a None None = request_cdn (url a @ ''.gif'') a
          \<and> Asset_get request_cdn a None (Some 32) = request_cdn (url a @ ''?size=32'' @ ''.gif'') a
          \<and> ((\<exists>k::nat. s = 2 ^ k) \<and> 16 \<le> s \<and> s \<le> 4096 \<longrightarrow>
                Asset_get request_cdn a None (Some s)
                  = request_cdn (url a @ ''?size='' @ str_int s @ ''.gif'') a))
       \<and> (\<not> startswith h ''a_'' \<longrightarrow>
            Asset_animated a \<noteq> Some True
          \<and> Asset_get request_cdn a None None = request_cdn (url a @ ''.png'') a
          \<and> Asset_get request_cdn a None (Some 32) = request_cdn (url a @ ''?size=32'' @ ''.png'') a
          \<and> ((\<exists>k::nat. s = 2 ^ k) \<and> 16 \<le> s \<and> s \<le> 4096 \<longrightarrow>
                Asset_get request_cdn a None (Some s)
                  = request_cdn (url a @ ''?size='' @ str_int s @ ''.png'') a))
       \<and> (ext \<noteq> [] \<longrightarrow>
            Asset_get request_cdn a (Some ext) None = request_cdn (url a @ ext) a
          \<and> Asset_get request_cdn a (Some ext) (Some 32) = request_cdn (url a @ ''?size=32'' @ ext) a
          \<and> ((\<exists>k::nat. s = 2 ^ k) \<and> 16 \<le> s \<and> s \<le> 4096 \<longrightarrow>
                Asset_get request_cdn a (Some ext) (Some s)
                  = request_cdn (url a @ ''?size='' @ str_int s @ ext) a))"
proof -
  from from_path_hash_built [OF assms] obtain p
    where p: "format path h = Inr p"
      and a: "a = \<lparr>asset.client = cl, url = BASE @ ''/'' @ p, hash = Some h\<rparr>"
    by blast
  from a have u: "url a = BASE @ ''/'' @ p" and h: "hash a = Some h" by simp_all
  have anim: "startswith h ''a_'' \<Longrightarrow> Asset_animated a = Some True"
    using h startswith_a_nonempty [of h] by (simp add: Asset_animated_def)
  have still: "\<not> startswith h ''a_'' \<Longrightarrow> Asset_animated a \<noteq> Some True"
    using h by (simp add: Asset_animated_def)
  have g32: "\<And>e. Asset_get request_cdn a e (Some 32) =
           request_cdn (url a @ ''?size=32'' @
                (if e = None \<or> e = Some []
                 then (if Asset_animated a = Some True then ''.gif'' else ''.png'')
                 else the e)) a"
    using Asset_get_accepts_valid_size [OF pow2_32, where a = a and request_cdn = request_cdn]
    by (simp add: str_int_32)
  have gs: "\<And>e. (\<exists>k::nat. s = 2 ^ k) \<and> 16 \<le> s \<and> s \<le> 4096 \<Longrightarrow>
           Asset_get request_cdn a e (Some s) =
           request_cdn (url a @ ''?size='' @ str_int s @
                (if e = None \<or> e = Some []
                 then (if Asset_animated a = Some True then ''.gif'' else ''.png'')
                 else the e)) a"
    using Asset_get_accepts_valid_size [where s = s and a = a and request_cdn = request_cdn]
    by blast
  have c1: "\<exists>p. format path h = Inr p \<and> url a = BASE @ ''/'' @ p"
    using p u by blast
  have c3: "startswith h ''a_'' \<longrightarrow>
            Asset_animated a = Some True
          \<and> Asset_get request_cdn a None None = request_cdn (url a @ ''.gif'') a
          \<and> Asset_get request_cdn a None (Some 32) = request_cdn (url a @ ''?size=32'' @ ''.gif'') a
          \<and> ((\<exists>k::nat. s = 2 ^ k) \<and> 16 \<le> s \<and> s \<le> 4096 \<longrightarrow>
                Asset_get request_cdn a None (Some s)
                  = request_cdn (url a @ ''?size='' @ str_int s @ ''.gif'') a)"
    using anim g32 [of None] gs [of None] Asset_get_without_size [where request_cdn = request_cdn and a = a and ext = None]
    by simp
  have c4: "\<not> startswith h ''a_'' \<longrightarrow>
            Asset_animated a \<noteq> Some True
          \<and> Asset_get request_cdn a None None = request_cdn (url a @ ''.png'') a
          \<and> Asset_get request_cdn a None (Some 32) = request_cdn (url a @ ''?size=32'' @ ''.png'') a
          \<and> ((\<exists>k::nat. s = 2 ^ k) \<and> 16 \<le> s \<and> s \<le> 4096 \<longrightarrow>
                Asset_get request_cdn a None (Some s)
                  = request_cdn (url a @ ''?size='' @ str_int s @ ''.png'') a)"
    using still g32 [of None] gs [of None] Asset_get_without_size [where request_cdn = request_cdn and a = a and ext = None]
    by simp
  have c5: "ext \<noteq> [] \<longrightarrow>
            Asset_get request_cdn a (Some ext) None = request_cdn (url a @ ext) a
          \<and> Asset_get request_cdn a (Some ext) (Some 32) = request_cdn (url a @ ''?size=32'' @ ext) a
          \<and> ((\<exists>k::nat. s = 2 ^ k) \<and> 16 \<le> s \<and> s \<le> 4096 \<longrightarrow>
                Asset_get request_cdn a (Some ext) (Some s)
                  = request_cdn (url a @ ''?size='' @ str_int s @ ext) a)"
    using g32 [of "Some ext"] gs [of "Some ext"] Asset_get_without_size [where request_cdn = request_cdn and a = a and ext = "Some ext"]
    by simp
  from c1 h c3 c4 c5 show ?thesis by (intro conjI)
qed

text \<open>
  The asset of the icon path \<^verbatim>\<open>icons/{}.png\<close> and the hash \<^verbatim>\<open>a_1234\<close>, where the
  formatting answers \<^verbatim>\<open>icons/a_1234.png\<close>: it is animated, and the URLs requested with
  the sizes 32 and 64 are as computed.
\<close>

theorem asset_animated_prefix_get_witness:
  "from_path_hash (\<lambda>p h. Inr (''icons/'' @ h @ ''.png'')) 0 ''icons/{}.png'' ''a_1234'' =
     Inr \<lparr>asset.client = 0, url = ''https://cdn.discordapp.com/icons/a_1234.png'',
           hash = Some ''a_1234''\<rparr>
   \<and> startswith ''a_1234'' ''a_''
   \<and> Asset_animated \<lparr>asset.client = 0, url = ''https://cdn.discordapp.com/icons/a_1234.png'',
                hash = Some ''a_1234''\<rparr> = Some True
   \<and> Asset_get (\<lambda>u a. Inr u) \<lparr>asset.client = 0, url = ''https://cdn.discordapp.com/icons/a_1234.png'',
                hash = Some ''a_1234''\<rparr> None (Some 32)
       = (Inr ''https://cdn.discordapp.com/icons/a_1234.png?size=32.gif'' :: error + string)
   \<and> Asset_get (\<lambda>u a. Inr u) \<lparr>asset.client = 0, url = ''https://cdn.discordapp.com/icons/a_1234.png'',
                hash = Some ''a_1234''\<rparr> None (Some 64)
       = (Inr ''https://cdn.discordapp.com/icons/a_1234.png?size=64.gif'' :: error + string)
   \<and> Asset_get (\<lambda>u a. Inr u) \<lparr>asset.client = 0, url = ''https://cdn.discordapp.com/icons/a_1234.png'',
                hash = Some ''a_1234''\<rparr> (Some ''.webp'') (Some 64)
       = (Inr ''https://cdn.discordapp.com/icons/a_1234.png?size=64.webp'' :: error + string)"
proof -
  have built: "from_path_hash (\<lambda>p h. Inr (''icons/'' @ h @ ''.png'')) 0 ''icons/{}.png'' ''a_1234'' =
     Inr \<lparr>asset.client = 0, url = ''https://cdn.discordapp.com/icons/a_1234.png'',
           hash = Some ''a_1234''\<rparr>"
    by (simp add: from_path_hash_def BASE_def)
  have pre: "startswith ''a_1234'' ''a_''"
    by (simp add: startswith_def)
  have p64: "\<exists>k::nat. (64::int) = 2 ^ k"
    using pow2_check_iff [of 64] by simp
  have s64: "str_int 64 = ''64''"
    by (simp add: str_int_def str_nat.simps)
  note inst = asset_animated_prefix_get
      [OF built, where request_cdn = "\<lambda>u a. Inr u :: error + string" and s = 64
         and ext = "''.webp''"]
  from inst pre p64 have
      "Asset_animated \<lparr>asset.client = 0, url = ''https://cdn.discordapp.com/icons/a_1234.png'',
                hash = Some ''a_1234''\<rparr> = Some True"
    and "Asset_get (\<lambda>u a. Inr u) \<lparr>asset.client = 0, url = ''https://cdn.discordapp.com/icons/a_1234.png'',
                hash = Some ''a_1234''\<rparr> None (Some 32)
       = (Inr ''https://cdn.discordapp.com/icons/a_1234.png?size=32.gif'' :: error + string)"
    and "Asset_get (\<lambda>u a. Inr u) \<lparr>asset.client = 0, url = ''https://cdn.discordapp.com/icons/a_1234.png'',
                hash = Some ''a_1234''\<rparr> None (Some 64)
       = (Inr ''https://cdn.discordapp.com/icons/a_1234.png?size=64.gif'' :: error + string)"
    and "Asset_get (\<lambda>u a. Inr u) \<lparr>asset.client = 0, url = ''https://cdn.discordapp.com/icons/a_1234.png'',
                hash = Some ''a_1234''\<rparr> (Some ''.webp'') (Some 64)
       = (Inr ''https://cdn.discordapp.com/icons/a_1234.png?size=64.webp'' :: error + string)"
    by (simp_all add: s64)
  with built pre show ?thesis by (intro conjI)
qed

text \<open>
  Claim C10.  When the hash is \<^verbatim>\<open>None\<close> or the empty string, \<open>Asset_animated\<close> is
  \<^verbatim>\<open>None\<close> (not a boolean), and \<^verbatim>\<open>get\<close> without an extension, or with an empty one,
  takes the asset for a static one: the extension is \<^verbatim>\<open>.png\<close>.
\<close>

theorem asset_without_hash_not_animated:
  assumes "hash a = None \<or> hash a = Some []"
  shows "Asset_animated a = None
       \<and> Asset_get_url a None None = Inr (url a @ ''.png'')
       \<and> Asset_get_url a (Some []) None = Inr (url a @ ''.png'')
       \<and> Asset_get request_cdn a None None = request_cdn (url a @ ''.png'') a"
proof -
  from assms have none: "Asset_animated a = None"
    by (auto simp: Asset_animated_def)
  then show ?thesis
    by (simp add: Asset_get_def Asset_get_url_def truthy_opt_bool_def)
qed

theorem asset_without_hash_not_animated_witness:
  "Asset_animated \<lparr>asset.client = 0, url = ''https://cdn.discordapp.com/x'', hash = Some []\<rparr> = None
   \<and> Asset_animated \<lparr>asset.client = 0, url = ''https://cdn.discordapp.com/x'', hash = None\<rparr> = None
   \<and> Asset_get_url \<lparr>asset.client = 0, url = ''https://cdn.discordapp.com/x'', hash = None\<rparr> None None
       = Inr ''https://cdn.discordapp.com/x.png''"
  using asset_without_hash_not_animated
          [where a = "\<lparr>asset.client = 0, url = ''https://cdn.discordapp.com/x'', hash = Some []\<rparr>"
             and request_cdn = "\<lambda>u a. Inr u :: error + string"]
        asset_without_hash_not_animated
          [where a = "\<lparr>asset.client = 0, url = ''https://cdn.discordapp.com/x'', hash = None\<rparr>"
             and request_cdn = "\<lambda>u a. Inr u :: error + string"]
  by simp

text \<open>
  Claim C4, at \<^verbatim>\<open>get(size=0)\<close>.  The size 0 is not a power of two and lies outside
  16..4096, so the call should raise; but the test \<^verbatim>\<open>if size:\<close> around the validation
  skips it for 0 (the conjunct \<^verbatim>\<open>size != 0\<close> of the power-of-two test inside is never
  false), and \<^verbatim>\<open>get\<close> goes on to request the URL, without a size.  For every other size
  the validation is as the claim says (the three lemmas on \<open>Asset_get\<close> above).
\<close>

theorem Asset_get_size_zero_not_rejected:
  "\<not> (16 \<le> (0::int) \<and> (0::int) \<le> 4096)
   \<and> Asset_get_url \<lparr>asset.client = 0, url = ''https://cdn.discordapp.com/x'', hash = None\<rparr>
         None (Some 0) = Inr ''https://cdn.discordapp.com/x.png''
   \<and> Asset_get (\<lambda>u a. Inr u)
         \<lparr>asset.client = 0, url = ''https://cdn.discordapp.com/x'', hash = None\<rparr>
         None (Some 0) = (Inr ''https://cdn.discordapp.com/x.png'' :: error + string)"
  by (simp add: Asset_get_def Asset_get_url_def Asset_animated_def truthy_opt_bool_def)

section \<open>Deleting a guild-scoped entity\<close>

text \<open>
  Claim C5, as the code has it.  \<^verbatim>\<open>delete\<close> of a custom emoji or of a sticker whose
  stored guild identifier is \<^verbatim>\<open>None\<close> or 0 (falsy) raises ValueError and the log of HTTP
  calls is as before; with a non-zero guild identifier the log grows by exactly one
  delete call, made with the stored guild identifier and the entity's own identifier, and
  the call's exception, if any, is passed on.
\<close>

theorem delete_requires_guild_id:
  "((custom_emoji.guild_id e = None \<or> custom_emoji.guild_id e = Some 0) \<longrightarrow>
       CustomEmoji_delete http e r calls
         = (Some (ValueError ''Cannot delete emoji, no guild id set.''), calls))
 \<and> ((\<exists>g. custom_emoji.guild_id e = Some g \<and> g \<noteq> 0) \<longrightarrow>
       snd (CustomEmoji_delete http e r calls)
         = calls @ [delete_guild_emoji (custom_emoji.guild_id e) (emoji.id' e) (arg_or PNone r)]
     \<and> fst (CustomEmoji_delete http e r calls)
         = (case http (delete_guild_emoji (custom_emoji.guild_id e) (emoji.id' e) (arg_or PNone r)) of
              Inl err \<Rightarrow> Some err | Inr v \<Rightarrow> None))
 \<and> ((sticker.guild_id s = None \<or> sticker.guild_id s = Some 0) \<longrightarrow>
       Sticker_delete http s r calls
         = (Some (ValueError ''You can only delete guild stickers.''), calls))
 \<and> ((\<exists>g. sticker.guild_id s = Some g \<and> g \<noteq> 0) \<longrightarrow>
       snd (Sticker_delete http s r calls)
         = calls @ [delete_guild_sticker (sticker.guild_id s) (sticker_item.id' s) (arg_or PMissing r)]
     \<and> fst (Sticker_delete http s r calls)
         = (case http (delete_guild_sticker (sticker.guild_id s) (sticker_item.id' s) (arg_or PMissing r)) of
              Inl err \<Rightarrow> Some err | Inr v \<Rightarrow> None))"
proof -
  have e1: "(custom_emoji.guild_id e = None \<or> custom_emoji.guild_id e = Some 0) \<longrightarrow>
       CustomEmoji_delete http e r calls
         = (Some (ValueError ''Cannot delete emoji, no guild id set.''), calls)"
    by (auto simp: CustomEmoji_delete_def)
  have e2: "(\<exists>g. custom_emoji.guild_id e = Some g \<and> g \<noteq> 0) \<longrightarrow>
       snd (CustomEmoji_delete http e r calls)
         = calls @ [delete_guild_emoji (custom_emoji.guild_id e) (emoji.id' e) (arg_or PNone r)]
     \<and> fst (CustomEmoji_delete http e r calls)
         = (case http (delete_guild_emoji (custom_emoji.guild_id e) (emoji.id' e) (arg_or PNone r)) of
              Inl err \<Rightarrow> Some err | Inr v \<Rightarrow> None)"
    by (auto simp: CustomEmoji_delete_def Let_def split: sum.splits)
  have s1: "(sticker.guild_id s = None \<or> sticker.guild_id s = Some 0) \<longrightarrow>
       Sticker_delete http s r calls
         = (Some (ValueError ''You can only delete guild stickers.''), calls)"
    by (auto simp: Sticker_delete_def)
  have s2: "(\<exists>g. sticker.guild_id s = Some g \<and> g \<noteq> 0) \<longrightarrow>
       snd (Sticker_delete http s r calls)
         = calls @ [delete_guild_sticker (sticker.guild_id s) (sticker_item.id' s) (arg_or PMissing r)]
     \<and> fst (Sticker_delete http s r calls)
         = (case http (delete_guild_sticker (sticker.guild_id s) (sticker_item.id' s) (arg_or PMissing r)) of
              Inl err \<Rightarrow> Some err | Inr v \<Rightarrow> None)"
    by (auto simp: Sticker_delete_def Let_def split: sum.splits)
  from e1 e2 s1 s2 show ?thesis by blast
qed

theorem delete_requires_guild_id_witness:
  "CustomEmoji_delete (\<lambda>c. Inr PNone)
      \<lparr>emoji.id' = Some 5, emoji.name = Some ''blob'', animated = False, custom_emoji.client = 0,
        require_colons = True, managed = False, custom_emoji.available = True, creator_id = None,
        role_ids = [], custom_emoji.guild_id = None\<rparr> None []
     = (Some (ValueError ''Cannot delete emoji, no guild id set.''), [])
   \<and> snd (CustomEmoji_delete (\<lambda>c. Inr PNone)
      \<lparr>emoji.id' = Some 5, emoji.name = Some ''blob'', animated = False, custom_emoji.client = 0,
        require_colons = True, managed = False, custom_emoji.available = True, creator_id = None,
        role_ids = [], custom_emoji.guild_id = Some 9\<rparr> None [])
     = [delete_guild_emoji (Some 9) (Some 5) PNone]
   \<and> Sticker_delete (\<lambda>c. Inr PNone)
      \<lparr>sticker_item.id' = 7, sticker_item.client = 0, sticker_item.name = ''wave'', format_type = PNG,
        pack_id = None, description = None, tags = ''hi'', type' = GUILD,
        sticker.available = Some True, sort_value = None, user_id = None,
        sticker.guild_id = None\<rparr> None []
     = (Some (ValueError ''You can only delete guild stickers.''), [])
   \<and> snd (Sticker_delete (\<lambda>c. Inr PNone)
      \<lparr>sticker_item.id' = 7, sticker_item.client = 0, sticker_item.name = ''wave'', format_type = PNG,
        pack_id = None, description = None, tags = ''hi'', type' = GUILD,
        sticker.available = Some True, sort_value = None, user_id = None,
        sticker.guild_id = Some 9\<rparr> None [])
     = [delete_guild_sticker (Some 9) 7 PMissing]"
  using
    delete_requires_guild_id [where http = "\<lambda>c. Inr PNone" and r = None and calls = "[]"
      and e = "\<lparr>emoji.id' = Some 5, emoji.name = Some ''blob'', animated = False, custom_emoji.client = 0,
        require_colons = True, managed = False, custom_emoji.available = True, creator_id = None,
        role_ids = [], custom_emoji.guild_id = None\<rparr>"
      and s = "\<lparr>sticker_item.id' = 7, sticker_item.client = 0, sticker_item.name = ''wave'', format_type = PNG,
        pack_id = None, description = None, tags = ''hi'', type' = GUILD,
        sticker.available = Some True, sort_value = None, user_id = None,
        sticker.guild_id = None\<rparr>"]
    delete_requires_guild_id [where http = "\<lambda>c. Inr PNone" and r = None and calls = "[]"
      and e = "\<lparr>emoji.id' = Some 5, emoji.name = Some ''blob'', animated = False, custom_emoji.client = 0,
        require_colons = True, managed = False, custom_emoji.available = True, creator_id = None,
        role_ids = [], custom_emoji.guild_id = Some 9\<rparr>"
      and s = "\<lparr>sticker_item.id' = 7, sticker_item.client = 0, sticker_item.name = ''wave'', format_type = PNG,
        pack_id = None, description = None, tags = ''hi'', type' = GUILD,
        sticker.available = Some True, sort_value = None, user_id = None,
        sticker.guild_id = Some 9\<rparr>"]
  by simp

text \<open>
  A custom emoji whose guild identifier is set to 0: \<^verbatim>\<open>delete\<close> raises and makes no call.
\<close>

theorem delete_guild_id_zero_counterexample:
  "custom_emoji.guild_id
      \<lparr>emoji.id' = Some 5, emoji.name = Some ''blob'', animated = False, custom_emoji.client = 0,
        require_colons = True, managed = False, custom_emoji.available = True, creator_id = None,
        role_ids = [], custom_emoji.guild_id = Some 0\<rparr> = Some 0
   \<and> CustomEmoji_delete (\<lambda>c. Inr PNone)
      \<lparr>emoji.id' = Some 5, emoji.name = Some ''blob'', animated = False, custom_emoji.client = 0,
        require_colons = True, managed = False, custom_emoji.available = True, creator_id = None,
        role_ids = [], custom_emoji.guild_id = Some 0\<rparr> None []
     = (Some (ValueError ''Cannot delete emoji, no guild id set.''), [])"
  by (simp add: CustomEmoji_delete_def)

section \<open>Hooks of a scale\<close>

text \<open>
  Claim C6.  \<^verbatim>\<open>add_scale_check\<close>, \<^verbatim>\<open>add_scale_prerun\<close> and \<^verbatim>\<open>add_scale_postrun\<close>
  raise TypeError for an argument that is not a coroutine function and leave the scale as
  it was; a coroutine function is appended at the end of the corresponding list, and
  nothing else of the scale changes.
\<close>

theorem add_scale_hook_registration:
  "(\<not> iscoroutinefunction f \<longrightarrow>
       add_scale_check s f = (Some (TypeError ''Check must be a coroutine''), s)
     \<and> add_scale_prerun s f = (Some (TypeError ''Callback must be a coroutine''), s)
     \<and> add_scale_postrun s f = (Some (TypeError ''Callback must be a coroutine''), s))
 \<and> (iscoroutinefunction f \<longrightarrow>
       add_scale_check s f = (None, s\<lparr>scale_checks := scale_checks s @ [f]\<rparr>)
     \<and> add_scale_prerun s f = (None, s\<lparr>scale_prerun := scale_prerun s @ [f]\<rparr>)
     \<and> add_scale_postrun s f = (None, s\<lparr>scale_postrun := scale_postrun s @ [f]\<rparr>))"
proof (cases "iscoroutinefunction f")
  case False
  then show ?thesis
    by (simp add: add_scale_check_def add_scale_prerun_def add_scale_postrun_def)
next
  case True
  have c: "add_scale_check s f = (None, s\<lparr>scale_checks := scale_checks s @ [f]\<rparr>)"
    using True by (cases "scale_checks s = []") (simp_all add: add_scale_check_def)
  have p: "add_scale_prerun s f = (None, s\<lparr>scale_prerun := scale_prerun s @ [f]\<rparr>)"
    using True by (cases "scale_prerun s = []") (simp_all add: add_scale_prerun_def)
  have q: "add_scale_postrun s f = (None, s\<lparr>scale_postrun := scale_postrun s @ [f]\<rparr>)"
    using True by (cases "scale_postrun s = []") (simp_all add: add_scale_postrun_def)
  from True c p q show ?thesis by simp
qed

theorem add_scale_hook_registration_witness:
  "add_scale_check
      \<lparr>scale_name = ''Tools'', dunder_name = None, scale_commands = [],
        scale_checks = [CoroutineFunction 1], scale_prerun = [], scale_postrun = []\<rparr>
      (OtherObject 3)
     = (Some (TypeError ''Check must be a coroutine''),
        \<lparr>scale_name = ''Tools'', dunder_name = None, scale_commands = [],
          scale_checks = [CoroutineFunction 1], scale_prerun = [], scale_postrun = []\<rparr>)
   \<and> add_scale_check
      \<lparr>scale_name = ''Tools'', dunder_name = None, scale_commands = [],
        scale_checks = [CoroutineFunction 1], scale_prerun = [], scale_postrun = []\<rparr>
      (CoroutineFunction 2)
     = (None,
        \<lparr>scale_name = ''Tools'', dunder_name = None, scale_commands = [],
          scale_checks = [CoroutineFunction 1, CoroutineFunction 2], scale_prerun = [],
          scale_postrun = []\<rparr>)
   \<and> add_scale_prerun
      \<lparr>scale_name = ''Tools'', dunder_name = None, scale_commands = [],
        scale_checks = [CoroutineFunction 1], scale_prerun = [], scale_postrun = []\<rparr>
      (CoroutineFunction 2)
     = (None,
        \<lparr>scale_name = ''Tools'', dunder_name = None, scale_commands = [],
          scale_checks = [CoroutineFunction 1], scale_prerun = [CoroutineFunction 2],
          scale_postrun = []\<rparr>)"
  using
    add_scale_hook_registration [of "OtherObject 3"
      "\<lparr>scale_name = ''Tools'', dunder_name = None, scale_commands = [],
        scale_checks = [CoroutineFunction 1], scale_prerun = [], scale_postrun = []\<rparr>"]
    add_scale_hook_registration [of "CoroutineFunction 2"
      "\<lparr>scale_name = ''Tools'', dunder_name = None, scale_commands = [],
        scale_checks = [CoroutineFunction 1], scale_prerun = [], scale_postrun = []\<rparr>"]
  by simp

section \<open>Reference accessors\<close>

lemma reads_pure:
  assumes "\<And>x. snd (acc x) = x"
  shows "reads acc n e = (replicate n (fst (acc e)), e)"
proof (induction n)
  case 0
  show ?case by simp
next
  case (Suc n)
  obtain r where r: "acc e = (r, e)"
    using assms [of e] by (cases "acc e") simp
  with Suc show ?case by simp
qed

text \<open>
  Claim C7.  Reading \<^verbatim>\<open>creator\<close>, \<^verbatim>\<open>roles\<close> or \<^verbatim>\<open>guild\<close> of a custom emoji, or
  \<^verbatim>\<open>user\<close> or \<^verbatim>\<open>guild\<close> of a sticker, any number of times in a row leaves the
  entity exactly as it was and yields the same value at every read.  The value is a handle
  over the stored identifier(s) and the cache method of the entity's client; the guarded
  accessors (\<^verbatim>\<open>creator\<close>, and both of the sticker) yield \<^verbatim>\<open>None\<close> when the identifier
  is \<^verbatim>\<open>None\<close> or 0.
\<close>

theorem accessors_read_only:
  "reads CustomEmoji_creator n e = (replicate n (fst (CustomEmoji_creator e)), e)
 \<and> reads CustomEmoji_roles n e = (replicate n (fst (CustomEmoji_roles e)), e)
 \<and> reads CustomEmoji_guild n e = (replicate n (fst (CustomEmoji_guild e)), e)
 \<and> reads Sticker_user n s = (replicate n (fst (Sticker_user s)), s)
 \<and> reads Sticker_guild n s = (replicate n (fst (Sticker_guild s)), s)
 \<and> fst (CustomEmoji_creator e) =
      (if creator_id e = None \<or> creator_id e = Some 0 then None
       else Some (CacheProxy (creator_id e) (get_user (custom_emoji.client e))))
 \<and> fst (CustomEmoji_roles e) = Some (CacheView (role_ids e) (get_role (custom_emoji.client e)))
 \<and> fst (CustomEmoji_guild e) =
      Some (CacheProxy (custom_emoji.guild_id e) (get_guild (custom_emoji.client e)))
 \<and> fst (Sticker_user s) =
      (if user_id s = None \<or> user_id s = Some 0 then None
       else Some (CacheProxy (user_id s) (get_user (sticker_item.client s))))
 \<and> fst (Sticker_guild s) =
      (if sticker.guild_id s = None \<or> sticker.guild_id s = Some 0 then None
       else Some (CacheProxy (sticker.guild_id s) (get_guild (sticker_item.client s))))"
proof -
  have r1: "reads CustomEmoji_creator n e = (replicate n (fst (CustomEmoji_creator e)), e)"
    by (rule reads_pure) (simp add: CustomEmoji_creator_def)
  have r2: "reads CustomEmoji_roles n e = (replicate n (fst (CustomEmoji_roles e)), e)"
    by (rule reads_pure) (simp add: CustomEmoji_roles_def)
  have r3: "reads CustomEmoji_guild n e = (replicate n (fst (CustomEmoji_guild e)), e)"
    by (rule reads_pure) (simp add: CustomEmoji_guild_def)
  have r4: "reads Sticker_user n s = (replicate n (fst (Sticker_user s)), s)"
    by (rule reads_pure) (simp add: Sticker_user_def)
  have r5: "reads Sticker_guild n s = (replicate n (fst (Sticker_guild s)), s)"
    by (rule reads_pure) (simp add: Sticker_guild_def)
  have v1: "fst (CustomEmoji_creator e) =
      (if creator_id e = None \<or> creator_id e = Some 0 then None
       else Some (CacheProxy (creator_id e) (get_user (custom_emoji.client e))))"
    by (cases "creator_id e") (auto simp: CustomEmoji_creator_def)
  have v2: "fst (CustomEmoji_roles e) = Some (CacheView (role_ids e) (get_role (custom_emoji.client e)))"
    by (simp add: CustomEmoji_roles_def)
  have v3: "fst (CustomEmoji_guild e) =
      Some (CacheProxy (custom_emoji.guild_id e) (get_guild (custom_emoji.client e)))"
    by (simp add: CustomEmoji_guild_def)
  have v4: "fst (Sticker_user s) =
      (if user_id s = None \<or> user_id s = Some 0 then None
       else Some (CacheProxy (user_id s) (get_user (sticker_item.client s))))"
    by (cases "user_id s") (auto simp: Sticker_user_def)
  have v5: "fst (Sticker_guild s) =
      (if sticker.guild_id s = None \<or> sticker.guild_id s = Some 0 then None
       else Some (CacheProxy (sticker.guild_id s) (get_guild (sticker_item.client s))))"
    by (cases "sticker.guild_id s") (auto simp: Sticker_guild_def)
  from r1 r2 r3 r4 r5 v1 v2 v3 v4 v5 show ?thesis by simp
qed

theorem accessors_read_only_witness:
  "reads CustomEmoji_roles 3
      \<lparr>emoji.id' = Some 5, emoji.name = Some ''blob'', animated = False, custom_emoji.client = 0,
        require_colons = True, managed = False, custom_emoji.available = True, creator_id = Some 11,
        role_ids = [21, 22], custom_emoji.guild_id = Some 9\<rparr>
     = ([Some (CacheView [21, 22] (get_role 0)), Some (CacheView [21, 22] (get_role 0)),
         Some (CacheView [21, 22] (get_role 0))],
        \<lparr>emoji.id' = Some 5, emoji.name = Some ''blob'', animated = False, custom_emoji.client = 0,
          require_colons = True, managed = False, custom_emoji.available = True, creator_id = Some 11,
          role_ids = [21, 22], custom_emoji.guild_id = Some 9\<rparr>)
   \<and> fst (CustomEmoji_creator
      \<lparr>emoji.id' = Some 5, emoji.name = Some ''blob'', animated = False, custom_emoji.client = 0,
        require_colons = True, managed = False, custom_emoji.available = True, creator_id = Some 11,
        role_ids = [21, 22], custom_emoji.guild_id = Some 9\<rparr>)
     = Some (CacheProxy (Some 11) (get_user 0))"
  using accessors_read_only [where n = 3
      and e = "\<lparr>emoji.id' = Some 5, emoji.name = Some ''blob'', animated = False, custom_emoji.client = 0,
        require_colons = True, managed = False, custom_emoji.available = True, creator_id = Some 11,
        role_ids = [21, 22], custom_emoji.guild_id = Some 9\<rparr>"
      and s = "\<lparr>sticker_item.id' = 7, sticker_item.client = 0, sticker_item.name = ''wave'', format_type = PNG,
        pack_id = None, description = None, tags = ''hi'', type' = GUILD,
        sticker.available = Some True, sort_value = None, user_id = None,
        sticker.guild_id = Some 9\<rparr>"]
  by (simp add: numeral_3_eq_3)

section \<open>Editing an entity\<close>

text \<open>
  Claim C8.  Let \<open>ec\<close> be the call that \<^verbatim>\<open>CustomEmoji.edit\<close> makes and \<open>sc\<close> the call
  that \<^verbatim>\<open>Sticker.edit\<close> makes.  When the HTTP collaborator raises at that call (a failure
  or a cancellation delivered at the \<^verbatim>\<open>await\<close>), \<^verbatim>\<open>edit\<close> raises the same exception and
  the entity is exactly as it was.  \<^verbatim>\<open>update_from_dict\<close> runs only when the call has
  returned, on the payload it returned, and what \<^verbatim>\<open>edit\<close> then raises and leaves is
  what \<^verbatim>\<open>update_from_dict\<close> raises and leaves.  So an entity that differs after \<^verbatim>\<open>edit\<close>
  was changed by \<^verbatim>\<open>update_from_dict\<close> after a successful call.  A sticker without a
  truthy guild identifier is rejected before any call, unchanged.
\<close>

theorem edit_updates_only_after_success:
  assumes ec: "ec = modify_guild_emoji
                 (dict_filter_none [(''name'', arg_or PNone n), (''roles'', arg_or PNone r)])
                 (custom_emoji.guild_id e) (emoji.id' e) (arg_or PNone rs)"
      and sc: "sc = modify_guild_sticker
                 (dict_filter_none [(''name'', arg_or PMissing n),
                                    (''description'', arg_or PMissing dsc),
                                    (''tags'', arg_or PMissing t)])
                 (sticker.guild_id s) (sticker_item.id' s) (arg_or PMissing rs)"
  shows "(http ec = Inl err \<longrightarrow>
            CustomEmoji_edit http upd e n r rs calls = (Some err, e, calls @ [ec]))
       \<and> (http ec = Inr d \<longrightarrow>
            CustomEmoji_edit http upd e n r rs calls
              = (fst (upd e d), snd (upd e d), calls @ [ec]))
       \<and> (fst (snd (CustomEmoji_edit http upd e n r rs calls)) \<noteq> e \<longrightarrow>
            (\<exists>v. http ec = Inr v
                \<and> fst (snd (CustomEmoji_edit http upd e n r rs calls)) = snd (upd e v)))
       \<and> (sticker.guild_id s = None \<or> sticker.guild_id s = Some 0 \<longrightarrow>
            Sticker_edit http upd' s n dsc t rs calls
              = (Some (ValueError ''You can only edit guild stickers.''), s, calls))
       \<and> ((\<exists>g. sticker.guild_id s = Some g \<and> g \<noteq> 0) \<longrightarrow>
            (http sc = Inl err \<longrightarrow>
               Sticker_edit http upd' s n dsc t rs calls = (Some err, s, calls @ [sc]))
          \<and> (http sc = Inr d \<longrightarrow>
               Sticker_edit http upd' s n dsc t rs calls
                 = (fst (upd' s d), snd (upd' s d), calls @ [sc])))
       \<and> (fst (snd (Sticker_edit http upd' s n dsc t rs calls)) \<noteq> s \<longrightarrow>
            (\<exists>v. http sc = Inr v
                \<and> fst (snd (Sticker_edit http upd' s n dsc t rs calls)) = snd (upd' s v)))"
proof -
  have e1: "http ec = Inl err \<longrightarrow>
            CustomEmoji_edit http upd e n r rs calls = (Some err, e, calls @ [ec])"
    by (simp add: CustomEmoji_edit_def Let_def ec)
  have e2: "http ec = Inr d \<longrightarrow>
            CustomEmoji_edit http upd e n r rs calls
              = (fst (upd e d), snd (upd e d), calls @ [ec])"
    by (simp add: CustomEmoji_edit_def Let_def ec split: prod.splits)
  have e3: "fst (snd (CustomEmoji_edit http upd e n r rs calls)) \<noteq> e \<longrightarrow>
            (\<exists>v. http ec = Inr v
                \<and> fst (snd (CustomEmoji_edit http upd e n r rs calls)) = snd (upd e v))"
    by (cases "http ec") (simp_all add: CustomEmoji_edit_def Let_def ec split: prod.splits)
  have s0: "sticker.guild_id s = None \<or> sticker.guild_id s = Some 0 \<longrightarrow>
            Sticker_edit http upd' s n dsc t rs calls
              = (Some (ValueError ''You can only edit guild stickers.''), s, calls)"
    by (auto simp: Sticker_edit_def)
  have s1: "(\<exists>g. sticker.guild_id s = Some g \<and> g \<noteq> 0) \<longrightarrow>
            (http sc = Inl err \<longrightarrow>
               Sticker_edit http upd' s n dsc t rs calls = (Some err, s, calls @ [sc]))
          \<and> (http sc = Inr d \<longrightarrow>
               Sticker_edit http upd' s n dsc t rs calls
                 = (fst (upd' s d), snd (upd' s d), calls @ [sc]))"
    by (auto simp: Sticker_edit_def Let_def sc split: prod.splits)
  have s3: "fst (snd (Sticker_edit http upd' s n dsc t rs calls)) \<noteq> s \<longrightarrow>
            (\<exists>v. http sc = Inr v
                \<and> fst (snd (Sticker_edit http upd' s n dsc t rs calls)) = snd (upd' s v))"
    by (cases "http sc"; cases "id_truthy (sticker.guild_id s)")
       (simp_all add: Sticker_edit_def Let_def sc split: prod.splits)
  from e1 e2 e3 s0 s1 s3 show ?thesis by (intro conjI)
qed

text \<open>
  A custom emoji and a sticker of guild 9, edited with a new name.  When the call is
  cancelled both are as before, although \<^verbatim>\<open>update_from_dict\<close> would have renamed them;
  when the call returns, the custom emoji is renamed.
\<close>

theorem edit_updates_only_after_success_witness:
  "CustomEmoji_edit (\<lambda>c. Inl CancelledError)
      (\<lambda>e d. (None, e\<lparr>emoji.name := Some ''renamed''\<rparr>))
      \<lparr>emoji.id' = Some 5, emoji.name = Some ''blob'', animated = False, custom_emoji.client = 0,
        require_colons = True, managed = False, custom_emoji.available = True, creator_id = None,
        role_ids = [], custom_emoji.guild_id = Some 9\<rparr>
      (Some (PStr ''renamed'')) None None []
    = (Some CancelledError,
       \<lparr>emoji.id' = Some 5, emoji.name = Some ''blob'', animated = False, custom_emoji.client = 0,
        require_colons = True, managed = False, custom_emoji.available = True, creator_id = None,
        role_ids = [], custom_emoji.guild_id = Some 9\<rparr>,
       [modify_guild_emoji [(''name'', PStr ''renamed'')] (Some 9) (Some 5) PNone])
   \<and> Sticker_edit (\<lambda>c. Inl CancelledError)
      (\<lambda>s d. (None, s\<lparr>sticker_item.name := ''renamed''\<rparr>))
      \<lparr>sticker_item.id' = 7, sticker_item.client = 0, sticker_item.name = ''wave'',
        format_type = PNG, pack_id = None, description = None, tags = ''hi'', type' = GUILD,
        sticker.available = Some True, sort_value = None, user_id = None,
        sticker.guild_id = Some 9\<rparr>
      (Some (PStr ''renamed'')) (Some (PStr ''a wave'')) (Some (PStr ''hi'')) None []
    = (Some CancelledError,
       \<lparr>sticker_item.id' = 7, sticker_item.client = 0, sticker_item.name = ''wave'',
        format_type = PNG, pack_id = None, description = None, tags = ''hi'', type' = GUILD,
        sticker.available = Some True, sort_value = None, user_id = None,
        sticker.guild_id = Some 9\<rparr>,
       [modify_guild_sticker
          [(''name'', PStr ''renamed''), (''description'', PStr ''a wave''), (''tags'', PStr ''hi'')]
          (Some 9) 7 PMissing])
   \<and> CustomEmoji_edit (\<lambda>c. Inr (PDict [(''name'', PStr ''renamed'')]))
      (\<lambda>e d. (None, e\<lparr>emoji.name := Some ''renamed''\<rparr>))
      \<lparr>emoji.id' = Some 5, emoji.name = Some ''blob'', animated = False, custom_emoji.client = 0,
        require_colons = True, managed = False, custom_emoji.available = True, creator_id = None,
        role_ids = [], custom_emoji.guild_id = Some 9\<rparr>
      (Some (PStr ''renamed'')) None None []
    = (None,
       \<lparr>emoji.id' = Some 5, emoji.name = Some ''renamed'', animated = False, custom_emoji.client = 0,
        require_colons = True, managed = False, custom_emoji.available = True, creator_id = None,
        role_ids = [], custom_emoji.guild_id = Some 9\<rparr>,
       [modify_guild_emoji [(''name'', PStr ''renamed'')] (Some 9) (Some 5) PNone])"
proof -
  have ec: "modify_guild_emoji [(''name'', PStr ''renamed'')] (Some 9) (Some 5) PNone
      = modify_guild_emoji
          (dict_filter_none [(''name'', arg_or PNone (Some (PStr ''renamed''))),
                             (''roles'', arg_or PNone None)])
          (custom_emoji.guild_id
             \<lparr>emoji.id' = Some 5, emoji.name = Some ''blob'', animated = False,
               custom_emoji.client = 0, require_colons = True, managed = False,
               custom_emoji.available = True, creator_id = None, role_ids = [],
               custom_emoji.guild_id = Some 9\<rparr>)
          (emoji.id'
             \<lparr>emoji.id' = Some 5, emoji.name = Some ''blob'', animated = False,
               custom_emoji.client = 0, require_colons = True, managed = False,
               custom_emoji.available = True, creator_id = None, role_ids = [],
               custom_emoji.guild_id = Some 9\<rparr>)
          (arg_or PNone None)"
    by (simp add: dict_filter_none_def)
  have sc: "modify_guild_sticker
          [(''name'', PStr ''renamed''), (''description'', PStr ''a wave''), (''tags'', PStr ''hi'')]
          (Some 9) 7 PMissing
      = modify_guild_sticker
          (dict_filter_none [(''name'', arg_or PMissing (Some (PStr ''renamed''))),
                             (''description'', arg_or PMissing (Some (PStr ''a wave''))),
                             (''tags'', arg_or PMissing (Some (PStr ''hi'')))])
          (sticker.guild_id
             \<lparr>sticker_item.id' = 7, sticker_item.client = 0, sticker_item.name = ''wave'',
               format_type = PNG, pack_id = None, description = None, tags = ''hi'',
               type' = GUILD, sticker.available = Some True, sort_value = None, user_id = None,
               sticker.guild_id = Some 9\<rparr>)
          (sticker_item.id'
             \<lparr>sticker_item.id' = 7, sticker_item.client = 0, sticker_item.name = ''wave'',
               format_type = PNG, pack_id = None, description = None, tags = ''hi'',
               type' = GUILD, sticker.available = Some True, sort_value = None, user_id = None,
               sticker.guild_id = Some 9\<rparr>)
          (arg_or PMissing None)"
    by (simp add: dict_filter_none_def)
  note cancelled = edit_updates_only_after_success
      [OF ec sc, where http = "\<lambda>c. Inl CancelledError" and err = CancelledError
         and upd = "\<lambda>e d. (None, e\<lparr>emoji.name := Some ''renamed''\<rparr>)"
         and upd' = "\<lambda>s d. (None, s\<lparr>sticker_item.name := ''renamed''\<rparr>)"
         and calls = "[]" and d = PNone]
  note returned = edit_updates_only_after_success
      [OF ec sc, where http = "\<lambda>c. Inr (PDict [(''name'', PStr ''renamed'')])"
         and d = "PDict [(''name'', PStr ''renamed'')]" and err = CancelledError
         and upd = "\<lambda>e d. (None, e\<lparr>emoji.name := Some ''renamed''\<rparr>)"
         and upd' = "\<lambda>s d. (None, s\<lparr>sticker_item.name := ''renamed''\<rparr>)"
         and calls = "[]"]
  have w1: "CustomEmoji_edit (\<lambda>c. Inl CancelledError)
      (\<lambda>e d. (None, e\<lparr>emoji.name := Some ''renamed''\<rparr>))
      \<lparr>emoji.id' = Some 5, emoji.name = Some ''blob'', animated = False, custom_emoji.client = 0,
        require_colons = True, managed = False, custom_emoji.available = True, creator_id = None,
        role_ids = [], custom_emoji.guild_id = Some 9\<rparr>
      (Some (PStr ''renamed'')) None None []
    = (Some CancelledError,
       \<lparr>emoji.id' = Some 5, emoji.name = Some ''blob'', animated = False, custom_emoji.client = 0,
        require_colons = True, managed = False, custom_emoji.available = True, creator_id = None,
        role_ids = [], custom_emoji.guild_id = Some 9\<rparr>,
       [modify_guild_emoji [(''name'', PStr ''renamed'')] (Some 9) (Some 5) PNone])"
    using cancelled [THEN conjunct1] by simp
  have w2: "Sticker_edit (\<lambda>c. Inl CancelledError)
      (\<lambda>s d. (None, s\<lparr>sticker_item.name := ''renamed''\<rparr>))
      \<lparr>sticker_item.id' = 7, sticker_item.client = 0, sticker_item.name = ''wave'',
        format_type = PNG, pack_id = None, description = None, tags = ''hi'', type' = GUILD,
        sticker.available = Some True, sort_value = None, user_id = None,
        sticker.guild_id = Some 9\<rparr>
      (Some (PStr ''renamed'')) (Some (PStr ''a wave'')) (Some (PStr ''hi'')) None []
    = (Some CancelledError,
       \<lparr>sticker_item.id' = 7, sticker_item.client = 0, sticker_item.name = ''wave'',
        format_type = PNG, pack_id = None, description = None, tags = ''hi'', type' = GUILD,
        sticker.available = Some True, sort_value = None, user_id = None,
        sticker.guild_id = Some 9\<rparr>,
       [modify_guild_sticker
          [(''name'', PStr ''renamed''), (''description'', PStr ''a wave''), (''tags'', PStr ''hi'')]
          (Some 9) 7 PMissing])"
    using cancelled [THEN conjunct2, THEN conjunct2, THEN conjunct2, THEN conjunct2, THEN conjunct1]
    by simp
  have w3: "CustomEmoji_edit (\<lambda>c. Inr (PDict [(''name'', PStr ''renamed'')]))
      (\<lambda>e d. (None, e\<lparr>emoji.name := Some ''renamed''\<rparr>))
      \<lparr>emoji.id' = Some 5, emoji.name = Some ''blob'', animated = False, custom_emoji.client = 0,
        require_colons = True, managed = False, custom_emoji.available = True, creator_id = None,
        role_ids = [], custom_emoji.guild_id = Some 9\<rparr>
      (Some (PStr ''renamed'')) None None []
    = (None,
       \<lparr>emoji.id' = Some 5, emoji.name = Some ''renamed'', animated = False, custom_emoji.client = 0,
        require_colons = True, managed = False, custom_emoji.available = True, creator_id = None,
        role_ids = [], custom_emoji.guild_id = Some 9\<rparr>,
       [modify_guild_emoji [(''name'', PStr ''renamed'')] (Some 9) (Some 5) PNone])"
    using returned [THEN conjunct2, THEN conjunct1] by simp
  from w1 w2 w3 show ?thesis by (intro conjI)
qed

section \<open>The payload of an edit\<close>

text \<open>
  The payload of \<^verbatim>\<open>CustomEmoji.edit\<close> holds \<^verbatim>\<open>name\<close> and \<^verbatim>\<open>roles\<close>, in this order,
  each exactly when its argument is given and is not \<^verbatim>\<open>None\<close>.
\<close>

lemma CustomEmoji_edit_payload_keys:
  "\<exists>p. snd (snd (CustomEmoji_edit http upd e n r rs calls))
         = calls @ [modify_guild_emoji p (custom_emoji.guild_id e) (emoji.id' e) (arg_or PNone rs)]
       \<and> map fst p = (if n = None \<or> n = Some PNone then [] else [''name''])
                     @ (if r = None \<or> r = Some PNone then [] else [''roles''])"
  by (cases n; cases r; cases "http (modify_guild_emoji
                 (dict_filter_none [(''name'', arg_or PNone n), (''roles'', arg_or PNone r)])
                 (custom_emoji.guild_id e) (emoji.id' e) (arg_or PNone rs))")
     (auto simp: CustomEmoji_edit_def dict_filter_none_def Let_def split: prod.splits)

text \<open>
  The payload of \<^verbatim>\<open>Sticker.edit\<close> called without \<^verbatim>\<open>description\<close> and \<^verbatim>\<open>tags\<close>: both
  keys are there, with the value \<^verbatim>\<open>MISSING\<close>.
\<close>

lemma Sticker_edit_payload_omitted:
  assumes "id_truthy (sticker.guild_id s)"
  shows "snd (snd (Sticker_edit http upd s n None None rs calls))
         = calls @ [modify_guild_sticker
                      (dict_filter_none [(''name'', arg_or PMissing n)]
                         @ [(''description'', PMissing), (''tags'', PMissing)])
                      (sticker.guild_id s) (sticker_item.id' s) (arg_or PMissing rs)]"
  using assms
  by (auto simp: Sticker_edit_def dict_filter_none_def Let_def split: sum.splits prod.splits)

text \<open>
  Claim C1, at \<^verbatim>\<open>Sticker.edit(name="wave2")\<close> on a guild sticker: the payload handed to
  \<^verbatim>\<open>modify_guild_sticker\<close> has the keys \<^verbatim>\<open>description\<close> and \<^verbatim>\<open>tags\<close>, which the caller
  left out, next to \<^verbatim>\<open>name\<close>.
\<close>

theorem Sticker_edit_only_name_payload:
  "snd (snd (Sticker_edit (\<lambda>c. Inr PNone) (\<lambda>s d. (None, s))
      \<lparr>sticker_item.id' = 7, sticker_item.client = 0, sticker_item.name = ''wave'', format_type = PNG,
        pack_id = None, description = None, tags = ''hi'', type' = GUILD,
        sticker.available = Some True, sort_value = None, user_id = None,
        sticker.guild_id = Some 9\<rparr>
      (Some (PStr ''wave2'')) None None None []))
   = [modify_guild_sticker
        [(''name'', PStr ''wave2''), (''description'', PMissing), (''tags'', PMissing)]
        (Some 9) 7 PMissing]"
  by (simp add: Sticker_edit_def dict_filter_none_def)

section \<open>Shedding a scale\<close>

lemma shed_cmd_interaction_absent:
  assumes "map_of (interactions b) sc = None \<or> map_of (interactions b) sc = Some []
           \<or> (\<exists>inner. map_of (interactions b) sc = Some inner \<and> map_of inner nm = None)"
  shows "shed_cmd (InteractionCommand sc nm) b = (None, b)"
  using assms by (auto split: option.splits)

lemma shed_message_command_absent:
  assumes "map_of (commands b) nm = None"
  shows "shed (s\<lparr>scale_commands := MessageCommand nm # cs\<rparr>) b = (Some (KeyError nm), b)"
  using assms by (simp add: shed_def)

lemma shed_without_dunder_name:
  assumes "shed_cmds (scale_commands s) b = (None, b')" and "dunder_name s = None"
  shows "shed s b = (Some (AttributeError ''__name__''), b')"
  using assms by (simp add: shed_def)

text \<open>
  Claim C2, at a scale with one message command, shed twice: the first \<^verbatim>\<open>shed\<close> empties
  the registries, the second raises KeyError at the look-up of the message command that
  is no longer in \<^verbatim>\<open>bot.commands\<close>.
\<close>

theorem shed_twice_raises:
  "shed \<lparr>scale_name = ''Tools'', dunder_name = Some ''Tools'',
          scale_commands = [MessageCommand ''ping''],
          scale_checks = [], scale_prerun = [], scale_postrun = []\<rparr>
        \<lparr>interactions = [], commands = [(''ping'', MessageCommand ''ping'')],
          scales = [(''Tools'', 1)]\<rparr>
     = (None, \<lparr>interactions = [], commands = [], scales = []\<rparr>)
   \<and> shed \<lparr>scale_name = ''Tools'', dunder_name = Some ''Tools'',
          scale_commands = [MessageCommand ''ping''],
          scale_checks = [], scale_prerun = [], scale_postrun = []\<rparr>
        \<lparr>interactions = [], commands = [], scales = []\<rparr>
     = (Some (KeyError ''ping''), \<lparr>interactions = [], commands = [], scales = []\<rparr>)"
  by (simp add: shed_def)


section \<open>Decoding a custom emoji\<close>

lemma map_of_filter_kwargs:
  "map_of (filter_kwargs d keys) k = (if k \<in> set keys then map_of d k else None)"
  unfolding filter_kwargs_def by (induction d) auto

lemma keys_filter_kwargs: "fst ` set (filter_kwargs d keys) \<subseteq> set keys \<inter> fst ` set d"
  unfolding filter_kwargs_def by auto

lemma keys_as_dom: "k \<in> fst ` set d \<longleftrightarrow> map_of d k \<noteq> None"
  using dom_map_of_conv_image_fst [of d] by (auto simp: dom_def)

lemma process_dict_map_of:
  assumes "CustomEmoji_process_dict place data c = Inr (d, c')"
  shows "\<exists>cv. map_of d =
           (case map_of data ''roles'' of
              None \<Rightarrow> ((map_of data)(''user'' := None))(''creator_id'' \<mapsto> cv)
            | Some r \<Rightarrow> ((((map_of data)(''user'' := None))(''creator_id'' \<mapsto> cv))
                           (''roles'' := None))(''role_ids'' \<mapsto> r))"
  using assms
  by (auto simp: CustomEmoji_process_dict_def Let_def update_conv' delete_conv'
        split: if_splits sum.splits option.splits prod.splits)

lemma process_dict_keys:
  assumes "CustomEmoji_process_dict place data c = Inr (d, c')"
  shows "map_of d ''roles'' = None"
    and "map_of d ''user'' = None"
    and "map_of data ''roles'' = Some r \<Longrightarrow> map_of d ''role_ids'' = Some r"
    and "k \<noteq> ''creator_id'' \<Longrightarrow> k \<noteq> ''user'' \<Longrightarrow> k \<noteq> ''roles'' \<Longrightarrow>
            (k \<noteq> ''role_ids'' \<or> map_of data ''roles'' = None) \<Longrightarrow> map_of d k = map_of data k"
proof -
  from process_dict_map_of [OF assms] obtain cv where m: "map_of d =
           (case map_of data ''roles'' of
              None \<Rightarrow> ((map_of data)(''user'' := None))(''creator_id'' \<mapsto> cv)
            | Some r \<Rightarrow> ((((map_of data)(''user'' := None))(''creator_id'' \<mapsto> cv))
                           (''roles'' := None))(''role_ids'' \<mapsto> r))" ..
  show "map_of d ''roles'' = None"
    by (simp add: m split: option.splits)
  show "map_of d ''user'' = None"
    by (simp add: m split: option.splits)
  show "map_of data ''roles'' = Some r \<Longrightarrow> map_of d ''role_ids'' = Some r"
    by (simp add: m)
  show "k \<noteq> ''creator_id'' \<Longrightarrow> k \<noteq> ''user'' \<Longrightarrow> k \<noteq> ''roles'' \<Longrightarrow>
            (k \<noteq> ''role_ids'' \<or> map_of data ''roles'' = None) \<Longrightarrow> map_of d k = map_of data k"
    by (auto simp: m split: option.splits)
qed

lemma process_dict_creator_id:
  assumes "CustomEmoji_process_dict place data c = Inr (d, c')"
  shows "map_of data ''user'' = Some u \<Longrightarrow> truthy u \<Longrightarrow>
           \<exists>uid. place u c = Inr (uid, c') \<and> map_of d ''creator_id'' = Some (PInt uid)"
    and "map_of data ''user'' = None \<or> (\<exists>u. map_of data ''user'' = Some u \<and> \<not> truthy u) \<Longrightarrow>
           c' = c \<and> map_of d ''creator_id'' = Some PNone"
  using assms
  by (auto simp: CustomEmoji_process_dict_def Let_def update_conv' delete_conv'
        split: if_splits sum.splits option.splits prod.splits)

lemma process_dict_succeeds:
  assumes "\<forall>u. map_of data ''user'' = Some u \<and> truthy u \<longrightarrow> (\<exists>uid c1. place u c = Inr (uid, c1))"
  shows "\<exists>d c'. CustomEmoji_process_dict place data c = Inr (d, c')"
proof (cases "map_of data ''user''")
  case None
  then show ?thesis by (simp add: CustomEmoji_process_dict_def Let_def)
next
  case (Some u)
  show ?thesis
  proof (cases "truthy u")
    case True
    with Some assms obtain uid c1 where "place u c = Inr (uid, c1)" by blast
    with Some True show ?thesis by (simp add: CustomEmoji_process_dict_def Let_def)
  next
    case False
    with Some show ?thesis by (simp add: CustomEmoji_process_dict_def Let_def)
  qed
qed

text \<open>An exception of the cache collaborator is the exception of \<^verbatim>\<open>from_dict\<close>.\<close>

lemma from_dict_collaborator_raises:
  assumes "map_of data ''user'' = Some u" and "truthy u" and "place u c = Inl e"
  shows "CustomEmoji_from_dict place data c = Inl e"
  using assms by (simp add: CustomEmoji_from_dict_def CustomEmoji_process_dict_def Let_def)

text \<open>
  Claim C9, as the code has it.  For a payload without a key \<^verbatim>\<open>client\<close>, and a cache
  collaborator that does not raise: \<^verbatim>\<open>from_dict\<close> reaches the constructor.  When the value
  under \<^verbatim>\<open>user\<close> is truthy (a non-empty sub-payload), it is handed to \<open>place_user_data\<close>
  with the cache as it is, the cache afterwards is the one the collaborator answered and
  \<^verbatim>\<open>creator_id\<close> is the identifier of the user it answered; when \<^verbatim>\<open>user\<close> is absent or
  falsy (\<^verbatim>\<open>None\<close>, an empty dict) the cache is untouched and \<^verbatim>\<open>creator_id\<close> is
  \<^verbatim>\<open>None\<close>.  The value of \<^verbatim>\<open>roles\<close> arrives under \<^verbatim>\<open>role_ids\<close>; the keys \<^verbatim>\<open>roles\<close> and
  \<^verbatim>\<open>user\<close> and every key outside the field set are gone; every other field of the field
  set keeps the value of the payload.
\<close>

theorem CustomEmoji_from_dict_normalizes:
  assumes "''client'' \<notin> fst ` set data"
      and "\<forall>u. map_of data ''user'' = Some u \<and> truthy u
               \<longrightarrow> (\<exists>uid c1. place_user_data u cache = Inr (uid, c1))"
  shows "\<exists>kw cache'. CustomEmoji_from_dict place_user_data data cache = Inr (kw, cache')
     \<and> (\<forall>u. map_of data ''user'' = Some u \<and> truthy u \<longrightarrow>
            (\<exists>uid. place_user_data u cache = Inr (uid, cache')
                 \<and> map_of kw ''creator_id'' = Some (PInt uid)))
     \<and> (map_of data ''user'' = None \<or> (\<exists>u. map_of data ''user'' = Some u \<and> \<not> truthy u) \<longrightarrow>
            cache' = cache \<and> map_of kw ''creator_id'' = Some PNone)
     \<and> (\<forall>r. map_of data ''roles'' = Some r \<longrightarrow> map_of kw ''role_ids'' = Some r)
     \<and> ''roles'' \<notin> fst ` set kw \<and> ''user'' \<notin> fst ` set kw
     \<and> fst ` set kw \<subseteq> set CustomEmoji_init_keys
     \<and> (\<forall>k \<in> set CustomEmoji_init_keys.
            k \<noteq> ''creator_id'' \<and> (k \<noteq> ''role_ids'' \<or> map_of data ''roles'' = None)
            \<longrightarrow> map_of kw k = map_of data k)"
proof -
  from assms(2) have "\<exists>d c'. CustomEmoji_process_dict place_user_data data cache = Inr (d, c')"
    by (rule process_dict_succeeds)
  then obtain d c'
    where pd: "CustomEmoji_process_dict place_user_data data cache = Inr (d, c')" by blast
  define kw where "kw = filter_kwargs d CustomEmoji_init_keys"
  have kwm: "\<And>k. map_of kw k = (if k \<in> set CustomEmoji_init_keys then map_of d k else None)"
    by (simp add: kw_def map_of_filter_kwargs)
  have "map_of data ''client'' = None"
    using assms(1) by (simp add: keys_as_dom)
  then have "map_of d ''client'' = None"
    using process_dict_keys(4) [OF pd, of "''client''"] by simp
  then have nocl: "''client'' \<notin> fst ` set kw"
    by (simp add: keys_as_dom kwm)
  have res: "CustomEmoji_from_dict place_user_data data cache = Inr (kw, c')"
    using pd nocl by (simp add: CustomEmoji_from_dict_def kw_def Let_def)
  have cin: "''creator_id'' \<in> set CustomEmoji_init_keys"
    and rin: "''role_ids'' \<in> set CustomEmoji_init_keys"
    and rout: "''roles'' \<notin> set CustomEmoji_init_keys"
    and uout: "''user'' \<notin> set CustomEmoji_init_keys"
    by (simp_all add: CustomEmoji_init_keys_def)
  have p1: "\<forall>u. map_of data ''user'' = Some u \<and> truthy u \<longrightarrow>
            (\<exists>uid. place_user_data u cache = Inr (uid, c')
                 \<and> map_of kw ''creator_id'' = Some (PInt uid))"
    using process_dict_creator_id(1) [OF pd] cin by (simp add: kwm)
  have p2: "map_of data ''user'' = None \<or> (\<exists>u. map_of data ''user'' = Some u \<and> \<not> truthy u) \<longrightarrow>
            c' = cache \<and> map_of kw ''creator_id'' = Some PNone"
    using process_dict_creator_id(2) [OF pd] cin by (simp add: kwm)
  have p3: "\<forall>r. map_of data ''roles'' = Some r \<longrightarrow> map_of kw ''role_ids'' = Some r"
    using process_dict_keys(3) [OF pd] rin by (simp add: kwm)
  have p4: "''roles'' \<notin> fst ` set kw" and p5: "''user'' \<notin> fst ` set kw"
    using rout uout by (simp_all add: keys_as_dom kwm)
  have p6: "fst ` set kw \<subseteq> set CustomEmoji_init_keys"
    using keys_filter_kwargs [of d CustomEmoji_init_keys] by (simp add: kw_def)
  have p7: "\<forall>k \<in> set CustomEmoji_init_keys.
            k \<noteq> ''creator_id'' \<and> (k \<noteq> ''role_ids'' \<or> map_of data ''roles'' = None)
            \<longrightarrow> map_of kw k = map_of data k"
  proof (intro ballI impI)
    fix k
    assume k: "k \<in> set CustomEmoji_init_keys"
      and c: "k \<noteq> ''creator_id'' \<and> (k \<noteq> ''role_ids'' \<or> map_of data ''roles'' = None)"
    from k rout uout have "k \<noteq> ''roles''" and "k \<noteq> ''user''" by auto
    with c have "map_of d k = map_of data k"
      using process_dict_keys(4) [OF pd, of k] by blast
    with k show "map_of kw k = map_of data k" by (simp add: kwm)
  qed
  from res p1 p2 p3 p4 p5 p6 p7 show ?thesis by blast
qed

theorem CustomEmoji_from_dict_normalizes_witness:
  "''client'' \<notin> fst ` set [(''id'', PInt 5), (''name'', PStr ''blob''),
                           (''user'', PDict [(''id'', PInt 11)]),
                           (''roles'', PList [PInt 21]), (''version'', PInt 3)]
   \<and> CustomEmoji_from_dict (\<lambda>u c. Inr (11, u # c))
        [(''id'', PInt 5), (''name'', PStr ''blob''), (''user'', PDict [(''id'', PInt 11)]),
         (''roles'', PList [PInt 21]), (''version'', PInt 3)] []
      = Inr ([(''id'', PInt 5), (''name'', PStr ''blob''), (''creator_id'', PInt 11),
              (''role_ids'', PList [PInt 21])],
             [PDict [(''id'', PInt 11)]])
   \<and> (\<exists>kw cache'. CustomEmoji_from_dict (\<lambda>u c. Inr (11, u # c))
        [(''id'', PInt 5), (''name'', PStr ''blob''), (''user'', PDict [(''id'', PInt 11)]),
         (''roles'', PList [PInt 21]), (''version'', PInt 3)] ([] :: pyval list)
          = Inr (kw, cache')
        \<and> map_of kw ''role_ids'' = Some (PList [PInt 21])
        \<and> fst ` set kw \<subseteq> set CustomEmoji_init_keys)"
proof -
  have h1: "''client'' \<notin> fst ` set [(''id'', PInt 5), (''name'', PStr ''blob''),
                           (''user'', PDict [(''id'', PInt 11)]),
                           (''roles'', PList [PInt 21]), (''version'', PInt 3)]"
    by simp
  have h2: "\<forall>u. map_of [(''id'', PInt 5), (''name'', PStr ''blob''),
                           (''user'', PDict [(''id'', PInt 11)]),
                           (''roles'', PList [PInt 21]), (''version'', PInt 3)] ''user'' = Some u
                \<and> truthy u
               \<longrightarrow> (\<exists>uid c1. (\<lambda>u c. Inr (11, u # c)) u ([] :: pyval list)
                                 = (Inr (uid, c1) :: error + int \<times> pyval list))"
    by simp
  have run: "CustomEmoji_from_dict (\<lambda>u c. Inr (11, u # c))
        [(''id'', PInt 5), (''name'', PStr ''blob''), (''user'', PDict [(''id'', PInt 11)]),
         (''roles'', PList [PInt 21]), (''version'', PInt 3)] []
      = Inr ([(''id'', PInt 5), (''name'', PStr ''blob''), (''creator_id'', PInt 11),
              (''role_ids'', PList [PInt 21])],
             [PDict [(''id'', PInt 11)]])"
  proof -
    have pd: "CustomEmoji_process_dict (\<lambda>u c. Inr (11, u # c))
        [(''id'', PInt 5), (''name'', PStr ''blob''), (''user'', PDict [(''id'', PInt 11)]),
         (''roles'', PList [PInt 21]), (''version'', PInt 3)] []
      = (Inr ([(''id'', PInt 5), (''name'', PStr ''blob''), (''version'', PInt 3),
              (''creator_id'', PInt 11), (''role_ids'', PList [PInt 21])],
             [PDict [(''id'', PInt 11)]]) :: error + pydict \<times> pyval list)"
      by (simp add: CustomEmoji_process_dict_def Let_def)
    have fk: "filter_kwargs [(''id'', PInt 5), (''name'', PStr ''blob''), (''version'', PInt 3),
              (''creator_id'', PInt 11), (''role_ids'', PList [PInt 21])] CustomEmoji_init_keys
      = [(''id'', PInt 5), (''name'', PStr ''blob''), (''creator_id'', PInt 11),
              (''role_ids'', PList [PInt 21])]"
      by (simp add: filter_kwargs_def CustomEmoji_init_keys_def)
    show ?thesis
      by (simp add: CustomEmoji_from_dict_def pd fk)
  qed
  have roles: "map_of [(''id'', PInt 5), (''name'', PStr ''blob''),
                           (''user'', PDict [(''id'', PInt 11)]),
                           (''roles'', PList [PInt 21]), (''version'', PInt 3)] ''roles''
                = Some (PList [PInt 21])"
    by simp
  note inst = CustomEmoji_from_dict_normalizes
      [where place_user_data = "\<lambda>u c. Inr (11, u # c)" and cache = "[] :: pyval list"
         and data = "[(''id'', PInt 5), (''name'', PStr ''blob''),
                      (''user'', PDict [(''id'', PInt 11)]),
                      (''roles'', PList [PInt 21]), (''version'', PInt 3)]"]
  have ex: "\<exists>kw cache'. CustomEmoji_from_dict (\<lambda>u c. Inr (11, u # c))
        [(''id'', PInt 5), (''name'', PStr ''blob''), (''user'', PDict [(''id'', PInt 11)]),
         (''roles'', PList [PInt 21]), (''version'', PInt 3)] ([] :: pyval list)
          = Inr (kw, cache')
        \<and> map_of kw ''role_ids'' = Some (PList [PInt 21])
        \<and> fst ` set kw \<subseteq> set CustomEmoji_init_keys"
    using inst [OF h1 h2]
  proof (elim exE conjE)
    fix kw cache'
    assume r: "CustomEmoji_from_dict (\<lambda>u c. Inr (11, u # c))
        [(''id'', PInt 5), (''name'', PStr ''blob''), (''user'', PDict [(''id'', PInt 11)]),
         (''roles'', PList [PInt 21]), (''version'', PInt 3)] ([] :: pyval list)
          = Inr (kw, cache')"
      and ro: "\<forall>r. map_of [(''id'', PInt 5), (''name'', PStr ''blob''),
                           (''user'', PDict [(''id'', PInt 11)]),
                           (''roles'', PList [PInt 21]), (''version'', PInt 3)] ''roles'' = Some r
                 \<longrightarrow> map_of kw ''role_ids'' = Some r"
      and ks: "fst ` set kw \<subseteq> set CustomEmoji_init_keys"
    from ro have "map_of [(''id'', PInt 5), (''name'', PStr ''blob''),
                           (''user'', PDict [(''id'', PInt 11)]),
                           (''roles'', PList [PInt 21]), (''version'', PInt 3)] ''roles''
                   = Some (PList [PInt 21])
                 \<longrightarrow> map_of kw ''role_ids'' = Some (PList [PInt 21])" ..
    from this roles have "map_of kw ''role_ids'' = Some (PList [PInt 21])" ..
    with r ks show ?thesis by (intro exI conjI)
  qed
  from h1 run ex show ?thesis by (intro conjI)
qed

text \<open>
  A payload whose \<^verbatim>\<open>user\<close> is an empty dict: \<open>place_user_data\<close> is not called (the
  cache stays empty) and \<^verbatim>\<open>creator_id\<close> is \<^verbatim>\<open>None\<close>.
\<close>

theorem from_dict_empty_user_counterexample:
  "map_of [(''id'', PInt 5), (''user'', PDict [])] ''user'' = Some (PDict [])
   \<and> CustomEmoji_from_dict (\<lambda>u c. Inr (11, u # c)) [(''id'', PInt 5), (''user'', PDict [])] []
      = Inr ([(''id'', PInt 5), (''creator_id'', PNone)], [])"
proof -
  have pd: "CustomEmoji_process_dict (\<lambda>u c. Inr (11, u # c))
        [(''id'', PInt 5), (''user'', PDict [])] []
      = (Inr ([(''id'', PInt 5), (''creator_id'', PNone)], []) :: error + pydict \<times> pyval list)"
    by (simp add: CustomEmoji_process_dict_def Let_def)
  have fk: "filter_kwargs [(''id'', PInt 5), (''creator_id'', PNone)] CustomEmoji_init_keys
      = [(''id'', PInt 5), (''creator_id'', PNone)]"
    by (simp add: filter_kwargs_def CustomEmoji_init_keys_def)
  show ?thesis
    by (simp add: CustomEmoji_from_dict_def pd fk)
qed

end
